theory Spec2Isabelle
  imports Complex_Main
begin

section \<open>Word and line model\<close>

text \<open>
  The dataclasses \<^verbatim>\<open>WordInfo\<close> and \<^verbatim>\<open>LineInfo\<close> of
  \<^verbatim>\<open>app/services/video_service.py\<close>. The fields carry the class initial as a prefix,
  since \<^verbatim>\<open>end\<close> is reserved and both classes share field names.

  Times are Python floats. The segmentation only adds, subtracts and compares them, so the
  time type \<open>'t\<close> is any type with \<open>0\<close>, \<open>+\<close>, \<open>-\<close> and \<open><\<close>, and no law of
  arithmetic is assumed: what is proved for every such type holds for IEEE doubles
  (rounding, infinities and NaN comparisons included) as well as for the reals. Python's
  \<^verbatim>\<open>a > b\<close> is written \<open>b < a\<close>.

  A text is a list of characters of any type \<open>'c\<close> (Python strings are sequences of code
  points); \<^verbatim>\<open>len\<close> is \<open>length\<close>. The start and end of a line are \<^verbatim>\<open>None\<close> until
  the first word is folded in.
\<close>

record ('t, 'c) WordInfo =
  w_start :: 't
  w_end :: 't
  w_word :: "'c list"

record ('t, 'c) LineInfo =
  l_start :: "'t option"
  l_end :: "'t option"
  l_duration :: 't
  l_line :: "'c list"

text \<open>
  \<^verbatim>\<open>str.strip()\<close> with no argument removes the leading and trailing characters that
  \<^verbatim>\<open>str.isspace\<close> accepts. The table behind \<^verbatim>\<open>isspace\<close> is Python's, not the
  repository's, so the predicate is a parameter \<open>isspace\<close>.
\<close>

definition strip :: "('c \<Rightarrow> bool) \<Rightarrow> 'c list \<Rightarrow> 'c list" where
  "strip isspace s = rev (dropWhile isspace (rev (dropWhile isspace s)))"

text \<open>The whitespace characters of ASCII, for the concrete runs below.\<close>

definition isspace_ascii :: "char \<Rightarrow> bool" where
  "isspace_ascii c = (c \<in> set [CHR '' '', CHR 0x09, CHR 0x0A, CHR 0x0B, CHR 0x0C, CHR 0x0D,
     CHR 0x1C, CHR 0x1D, CHR 0x1E, CHR 0x1F])"

section \<open>Segmentation: \<^verbatim>\<open>VideoCaption._run_combine_words\<close>\<close>

text \<open>\<^verbatim>\<open>LineInfo(start=None, end=None, duration=0.0, line="")\<close>\<close>

definition empty_line :: "('t::zero, 'c) LineInfo" where
  "empty_line = \<lparr>l_start = None, l_end = None, l_duration = 0, l_line = []\<rparr>"

text \<open>
  \<^verbatim>\<open>for i, x in enumerate(data): body\<close>, the loop state passed along. The index counts
  from the value given at the call, which is 0.
\<close>

fun for_enumerate :: "(nat \<Rightarrow> 'a \<Rightarrow> 's \<Rightarrow> 's) \<Rightarrow> nat \<Rightarrow> 'a list \<Rightarrow> 's \<Rightarrow> 's" where
  "for_enumerate body i [] st = st"
| "for_enumerate body i (x # xs) st = for_enumerate body (Suc i) xs (body i x st)"

text \<open>
  One iteration of the loop (source lines 262 to 294). The state is the pair
  \<^verbatim>\<open>(subtitle_lines, current_line)\<close>. \<^verbatim>\<open>data[i - 1]\<close> is read only when \<open>i > 0\<close>,
  where \<open>i - 1\<close> is an index of \<open>data\<close>.
\<close>

definition loop_body ::
  "('c \<Rightarrow> bool) \<Rightarrow> ('t::{zero,plus,minus,ord}, 'c) WordInfo list \<Rightarrow> int \<Rightarrow> 't \<Rightarrow> 't \<Rightarrow>
   nat \<Rightarrow> ('t, 'c) WordInfo \<Rightarrow>
   ('t, 'c) LineInfo list \<times> ('t, 'c) LineInfo \<Rightarrow> ('t, 'c) LineInfo list \<times> ('t, 'c) LineInfo" where
  "loop_body isspace data max_chars max_duration max_gap i word_data st =
    (let subtitle_lines = fst st;
         current_line = snd st;
         word_text = w_word word_data;
         word_start = w_start word_data;
         word_end = w_end word_data;
         word_duration = word_end - word_start;
         gap = (if i > 0 then word_start - w_end (data ! (i - 1)) else 0);
         max_time_hit = (max_duration < l_duration current_line + word_duration);
         max_chars_hit = (max_chars \<le> int (length (l_line current_line)) + int (length word_text));
         max_gap_hit = (max_gap < gap);
         emit = (l_line current_line \<noteq> [] \<and> (max_time_hit \<or> max_chars_hit \<or> max_gap_hit));
         subtitle_lines1 =
           (if emit
            then subtitle_lines @ [current_line\<lparr>l_line := strip isspace (l_line current_line)\<rparr>]
            else subtitle_lines);
         current_line1 = (if emit then empty_line else current_line);
         current_line2 =
           (if l_start current_line1 = None
            then current_line1\<lparr>l_start := Some word_start\<rparr>
            else current_line1)
     in (subtitle_lines1,
         current_line2\<lparr>l_line := l_line current_line2 @ word_text,
                        l_end := Some word_end,
                        l_duration := l_duration current_line2 + word_duration\<rparr>))"

definition run_combine_words ::
  "('c \<Rightarrow> bool) \<Rightarrow> ('t::{zero,plus,minus,ord}, 'c) WordInfo list \<Rightarrow> int \<Rightarrow> 't \<Rightarrow> 't \<Rightarrow>
   ('t, 'c) LineInfo list" where
  "run_combine_words isspace data max_chars max_duration max_gap =
    (let st = for_enumerate (loop_body isspace data max_chars max_duration max_gap) 0 data
                ([], empty_line);
         subtitle_lines = fst st;
         current_line = snd st
     in if l_line current_line \<noteq> []
        then subtitle_lines @ [current_line\<lparr>l_line := strip isspace (l_line current_line)\<rparr>]
        else subtitle_lines)"

section \<open>The segmentation as the specification words it\<close>

text \<open>
  The greedy pass of the specification (section 4.2), written from its words and kept apart
  from the source's loop above: the three triggers read the accumulator before the word is
  added, the gap is taken to the previous word (0 for the first word), the accumulator is
  emitted with its text trimmed when its text is not empty and a trigger fires, and the
  word is folded into the accumulator, which is fresh after an emission.
\<close>

definition time_hit :: "('t::{plus,minus,ord}, 'c) LineInfo \<Rightarrow> ('t, 'c) WordInfo \<Rightarrow> 't \<Rightarrow> bool" where
  "time_hit acc w max_duration = (max_duration < l_duration acc + (w_end w - w_start w))"

definition chars_hit :: "('t, 'c) LineInfo \<Rightarrow> ('t, 'c) WordInfo \<Rightarrow> int \<Rightarrow> bool" where
  "chars_hit acc w max_chars = (max_chars \<le> int (length (l_line acc)) + int (length (w_word w)))"

definition gap_hit :: "'t::ord \<Rightarrow> 't \<Rightarrow> bool" where
  "gap_hit gap max_gap = (max_gap < gap)"

definition emit_line :: "('c \<Rightarrow> bool) \<Rightarrow> ('t, 'c) LineInfo \<Rightarrow> ('t, 'c) LineInfo" where
  "emit_line isspace acc = acc\<lparr>l_line := strip isspace (l_line acc)\<rparr>"

definition fold_word :: "('t::{plus,minus}, 'c) LineInfo \<Rightarrow> ('t, 'c) WordInfo \<Rightarrow> ('t, 'c) LineInfo" where
  "fold_word acc w =
     \<lparr>l_start = (case l_start acc of None \<Rightarrow> Some (w_start w) | Some s \<Rightarrow> Some s),
      l_end = Some (w_end w),
      l_duration = l_duration acc + (w_end w - w_start w),
      l_line = l_line acc @ w_word w\<rparr>"

fun segment_from ::
  "('c \<Rightarrow> bool) \<Rightarrow> int \<Rightarrow> 't \<Rightarrow> 't \<Rightarrow> ('t::{zero,plus,minus,ord}, 'c) WordInfo option \<Rightarrow>
   ('t, 'c) LineInfo \<Rightarrow> ('t, 'c) WordInfo list \<Rightarrow> ('t, 'c) LineInfo list" where
  "segment_from isspace max_chars max_duration max_gap prev acc [] =
     (if l_line acc \<noteq> [] then [emit_line isspace acc] else [])"
| "segment_from isspace max_chars max_duration max_gap prev acc (w # ws) =
     (let gap = (case prev of None \<Rightarrow> 0 | Some p \<Rightarrow> w_start w - w_end p)
      in if l_line acc \<noteq> [] \<and>
            (time_hit acc w max_duration \<or> chars_hit acc w max_chars \<or> gap_hit gap max_gap)
         then emit_line isspace acc #
              segment_from isspace max_chars max_duration max_gap (Some w) (fold_word empty_line w) ws
         else segment_from isspace max_chars max_duration max_gap (Some w) (fold_word acc w) ws)"

definition segment ::
  "('c \<Rightarrow> bool) \<Rightarrow> ('t::{zero,plus,minus,ord}, 'c) WordInfo list \<Rightarrow> int \<Rightarrow> 't \<Rightarrow> 't \<Rightarrow>
   ('t, 'c) LineInfo list" where
  "segment isspace words max_chars max_duration max_gap =
     segment_from isspace max_chars max_duration max_gap None empty_line words"

text \<open>The end of the source's loop: the remaining text becomes the last line.\<close>

definition finish :: "('c \<Rightarrow> bool) \<Rightarrow> ('t, 'c) LineInfo list \<times> ('t, 'c) LineInfo \<Rightarrow> ('t, 'c) LineInfo list" where
  "finish sp st = (if l_line (snd st) \<noteq> [] then fst st @ [emit_line sp (snd st)] else fst st)"

section \<open>The words folded into each line\<close>

text \<open>
  \<open>groups\<close> cuts the input into the runs of consecutive words that one accumulator
  receives, by the decisions of the loop; \<open>line_of\<close> is the line such a run gives: the
  start of its first word, the end of its last word, the durations of its words added up
  from 0 in order, and their texts concatenated and trimmed.
\<close>

definition dur_of :: "('t::{zero,plus,minus}, 'c) WordInfo list \<Rightarrow> 't" where
  "dur_of g = foldl (\<lambda>d w. d + (w_end w - w_start w)) 0 g"

definition text_of :: "('t, 'c) WordInfo list \<Rightarrow> 'c list" where
  "text_of g = concat (map w_word g)"

definition line_of :: "('c \<Rightarrow> bool) \<Rightarrow> ('t::{zero,plus,minus}, 'c) WordInfo list \<Rightarrow> ('t, 'c) LineInfo" where
  "line_of isspace g =
     \<lparr>l_start = (case g of [] \<Rightarrow> None | w # _ \<Rightarrow> Some (w_start w)),
      l_end = (if g = [] then None else Some (w_end (last g))),
      l_duration = dur_of g,
      l_line = strip isspace (text_of g)\<rparr>"

fun groups_from ::
  "int \<Rightarrow> 't \<Rightarrow> 't \<Rightarrow> ('t::{zero,plus,minus,ord}, 'c) WordInfo option \<Rightarrow>
   ('t, 'c) WordInfo list \<Rightarrow> ('t, 'c) WordInfo list \<Rightarrow> ('t, 'c) WordInfo list list" where
  "groups_from max_chars max_duration max_gap prev g [] = (if g = [] then [] else [g])"
| "groups_from max_chars max_duration max_gap prev g (w # ws) =
     (let gap = (case prev of None \<Rightarrow> 0 | Some p \<Rightarrow> w_start w - w_end p)
      in if text_of g \<noteq> [] \<and>
            (max_duration < dur_of g + (w_end w - w_start w) \<or>
             max_chars \<le> int (length (text_of g)) + int (length (w_word w)) \<or>
             max_gap < gap)
         then g # groups_from max_chars max_duration max_gap (Some w) [w] ws
         else groups_from max_chars max_duration max_gap (Some w) (g @ [w]) ws)"

definition groups ::
  "('t::{zero,plus,minus,ord}, 'c) WordInfo list \<Rightarrow> int \<Rightarrow> 't \<Rightarrow> 't \<Rightarrow> ('t, 'c) WordInfo list list" where
  "groups data max_chars max_duration max_gap = groups_from max_chars max_duration max_gap None [] data"

definition has_text :: "('t, 'c) WordInfo list \<Rightarrow> bool" where
  "has_text g = (text_of g \<noteq> [])"

section \<open>Enumerations, exceptions and option records\<close>

text \<open>
  The enumerations \<^verbatim>\<open>Status\<close> and \<^verbatim>\<open>Position\<close> of
  \<^verbatim>\<open>video_service.py\<close>, with the integer each member stands for. The members of
  \<^verbatim>\<open>Position\<close> carry the class name, since \<open>top\<close> is a constant of the library.
\<close>

datatype Status = NotStarted | Processing | Completed | Failed

fun Status_value :: "Status \<Rightarrow> int" where
  "Status_value NotStarted = 1"
| "Status_value Processing = 2"
| "Status_value Completed = 3"
| "Status_value Failed = 4"

datatype Position = Position_bottom | Position_center | Position_top

text \<open>
  Exceptions are values. Only subclasses of \<^verbatim>\<open>Exception\<close> are modelled: they are what
  \<^verbatim>\<open>except Exception\<close> catches. \<open>str_exn\<close> is \<^verbatim>\<open>str(e)\<close>, and
  \<open>is_ffmpeg_Error\<close> is the test of \<^verbatim>\<open>except ffmpeg.Error\<close>.
\<close>

datatype exn =
    ValueError string
  | TypeError string
  | FfmpegError string
  | OSError string
  | RuntimeError string

fun str_exn :: "exn \<Rightarrow> string" where
  "str_exn (ValueError m) = m"
| "str_exn (TypeError m) = m"
| "str_exn (FfmpegError m) = m"
| "str_exn (OSError m) = m"
| "str_exn (RuntimeError m) = m"

fun is_ffmpeg_Error :: "exn \<Rightarrow> bool" where
  "is_ffmpeg_Error (FfmpegError m) = True"
| "is_ffmpeg_Error e = False"

text \<open>
  Decimal digits of an integer, for the message of \<^verbatim>\<open>Position(v)\<close> on a value that
  is no member: \<^verbatim>\<open>ValueError("v is not a valid Position")\<close>.
\<close>

fun str_nat :: "nat \<Rightarrow> string" where
  "str_nat n = (if n < 10 then [char_of (48 + n)] else str_nat (n div 10) @ [char_of (48 + n mod 10)])"

declare str_nat.simps [simp del]

definition str_int :: "int \<Rightarrow> string" where
  "str_int i = (if i < 0 then CHR ''-'' # str_nat (nat (- i)) else str_nat (nat i))"

definition Position_of_value :: "int \<Rightarrow> exn + Position" where
  "Position_of_value v =
     (if v = 1 then Inr Position_bottom
      else if v = 2 then Inr Position_center
      else if v = 3 then Inr Position_top
      else Inl (ValueError (str_int v @ '' is not a valid Position'')))"

text \<open>
  The models \<^verbatim>\<open>SubtitleOptions\<close> and \<^verbatim>\<open>JobCreation\<close> of
  \<^verbatim>\<open>app/models/video_models.py\<close>. A \<^verbatim>\<open>datetime\<close> is its seven components;
  \<^verbatim>\<open>datetime(1, 1, 1, 1, 1, 1, 1)\<close> is what \<^verbatim>\<open>create_job_db\<close> stores as the
  completion time of a job that has not completed.
\<close>

record 't SubtitleOptions =
  font :: string
  font_size :: int
  font_color :: string
  stroke_color :: string
  stroke_width :: int
  position_id :: int
  shadow :: bool
  max_chars :: int
  max_duration :: 't
  max_gap :: 't

datatype datetime = DateTime nat nat nat nat nat nat nat

record JobCreation =
  job_id :: string
  status_id :: int
  progress :: int
  created_at :: datetime
  input_path :: string
  output_path :: string
  original_filename :: string

section \<open>The job store and the file system\<close>

text \<open>
  A row of the table \<^verbatim>\<open>Jobs\<close> (the key \<^verbatim>\<open>Job_ID\<close> is the argument of the map
  \<open>Jobs\<close>), and the calls made to the store, in order, with the values each one binds to
  its statement: \<open>UpdateFailed\<close> writes status 4 and progress 0 with the message,
  \<open>UpdateCompleted\<close> writes status 3 and progress 100 with the completion time and the
  download URL.
\<close>

record job_row =
  Progress :: int
  Input_Path :: string
  Output_Path :: string
  Original_Filename :: string
  Created_At :: datetime
  Completed_At :: datetime
  Status_ID :: int
  Download_URL :: string
  Failed_Message :: string

datatype db_call =
    CreateJob string int int
  | UpdateStatus string int int
  | UpdateFailed string string
  | UpdateCompleted string datetime string

text \<open>
  The state a run reads and writes: the two tables, the set of paths at which a file exists,
  and the log of the calls to the store.
\<close>

record 't world =
  Jobs :: "string \<Rightarrow> job_row option"
  Subtitle_Options :: "string \<Rightarrow> 't SubtitleOptions option"
  files :: "string set"
  db_calls :: "db_call list"

text \<open>
  A \<^verbatim>\<open>TextClip\<close> of moviepy as the data the source gives it. The vertical position is
  the video height times a fraction; it is taken as a real number, and nothing below
  depends on its value.
\<close>

datatype xpos = x_center | x_at real

record ('t, 'c) TextClip =
  clip_text :: "'c list"
  clip_font :: string
  clip_fontsize :: int
  clip_color :: string
  clip_stroke :: "(string \<times> int) option"
  clip_start :: "'t option"
  clip_duration :: 't
  clip_position :: "xpos \<times> real"
  clip_blur :: "int option"

text \<open>
  What one run receives from outside the repository: the whitespace table of Python, the
  identifier \<^verbatim>\<open>uuid.uuid4()\<close> returns, the path functions of \<^verbatim>\<open>pathlib\<close>
  (\<open>temp_dir_join name\<close> is \<^verbatim>\<open>str(TEMP_DIR / name)\<close>, \<open>temp_dir_glob\<close> is
  \<^verbatim>\<open>TEMP_DIR.glob("*")\<close>), the clock, and the outcome of each external call:
  whether the n-th call to the store raises inside SQLite (\<open>db_error n\<close>), whether
  \<^verbatim>\<open>os.remove\<close> raises on a path, what ffmpeg, the transcriber, \<^verbatim>\<open>VideoFileClip\<close>,
  \<^verbatim>\<open>TextClip\<close> and \<^verbatim>\<open>write_videofile\<close> do (\<open>None\<close> for no exception).
\<close>

record ('t, 'c) env =
  str_isspace :: "'c \<Rightarrow> bool"
  uuid4 :: string
  suffix :: "string \<Rightarrow> string"
  stem :: "string \<Rightarrow> string"
  temp_dir_join :: "string \<Rightarrow> string"
  temp_dir_glob :: "string list"
  now :: datetime
  db_error :: "nat \<Rightarrow> bool"
  os_remove_error :: "string \<Rightarrow> exn option"
  ffmpeg_run :: "exn option"
  whisper_transcribe :: "exn + ('t, 'c) WordInfo list"
  VideoFileClip_size :: "exn + nat \<times> nat"
  TextClip_error :: "('t, 'c) TextClip \<Rightarrow> exn option"
  write_videofile :: "exn option"

text \<open>
  Every function of \<^verbatim>\<open>app/services/database.py\<close> runs its statement inside
  \<^verbatim>\<open>try\<close> and returns \<^verbatim>\<open>False\<close> from \<^verbatim>\<open>except Exception\<close>, leaving the
  tables as they were; it returns \<^verbatim>\<open>True\<close> otherwise. The call is logged either way.
  An \<^verbatim>\<open>UPDATE\<close> of a job that has no row changes nothing. SQLite does not check
  foreign keys unless asked to, and the source does not ask: an insert fails only on an
  error of the store or on a key that is taken.
\<close>

definition db_attempt :: "('t, 'c) env \<Rightarrow> db_call \<Rightarrow> 't world \<Rightarrow> bool \<times> 't world" where
  "db_attempt env call w =
     (\<not> db_error env (length (db_calls w)), w\<lparr>db_calls := db_calls w @ [call]\<rparr>)"

definition create_job_db ::
  "('t, 'c) env \<Rightarrow> JobCreation \<Rightarrow> 't SubtitleOptions \<Rightarrow> 't world \<Rightarrow> bool \<times> 't world" where
  "create_job_db env job_data subtitle_options w =
     (let (ok, w1) = db_attempt env (CreateJob (job_id job_data) (status_id job_data) (progress job_data)) w
      in if ok \<and> Jobs w (job_id job_data) = None \<and> Subtitle_Options w (job_id job_data) = None
         then (True,
               w1\<lparr>Jobs := (Jobs w)(job_id job_data \<mapsto>
                      \<lparr>Progress = progress job_data,
                       Input_Path = input_path job_data,
                       Output_Path = output_path job_data,
                       Original_Filename = original_filename job_data,
                       Created_At = created_at job_data,
                       Completed_At = DateTime 1 1 1 1 1 1 1,
                       Status_ID = status_id job_data,
                       Download_URL = [],
                       Failed_Message = []\<rparr>),
                   Subtitle_Options := (Subtitle_Options w)(job_id job_data \<mapsto> subtitle_options)\<rparr>)
         else (False, w1))"

definition update_row :: "(job_row \<Rightarrow> job_row) \<Rightarrow> string \<Rightarrow> 't world \<Rightarrow> 't world" where
  "update_row f jid w =
     (case Jobs w jid of
        None \<Rightarrow> w
      | Some r \<Rightarrow> w\<lparr>Jobs := (Jobs w)(jid \<mapsto> f r)\<rparr>)"

definition update_job_status_db ::
  "('t, 'c) env \<Rightarrow> string \<Rightarrow> int \<Rightarrow> int \<Rightarrow> 't world \<Rightarrow> bool \<times> 't world" where
  "update_job_status_db env jid sid prog w =
     (let (ok, w1) = db_attempt env (UpdateStatus jid sid prog) w
      in if ok
         then (True, update_row (\<lambda>r. r\<lparr>Status_ID := sid, Progress := prog\<rparr>) jid w1)
         else (False, w1))"

definition update_job_failed_db ::
  "('t, 'c) env \<Rightarrow> string \<Rightarrow> string \<Rightarrow> 't world \<Rightarrow> bool \<times> 't world" where
  "update_job_failed_db env jid failed_message w =
     (let (ok, w1) = db_attempt env (UpdateFailed jid failed_message) w
      in if ok
         then (True,
               update_row (\<lambda>r. r\<lparr>Status_ID := 4, Progress := 0, Failed_Message := failed_message\<rparr>)
                 jid w1)
         else (False, w1))"

definition update_job_completed_db ::
  "('t, 'c) env \<Rightarrow> string \<Rightarrow> 't world \<Rightarrow> bool \<times> 't world" where
  "update_job_completed_db env jid w =
     (let url = ''/jobs/'' @ jid @ ''/download'';
          (ok, w1) = db_attempt env (UpdateCompleted jid (now env) url) w
      in if ok
         then (True,
               update_row (\<lambda>r. r\<lparr>Status_ID := 3, Progress := 100, Completed_At := now env,
                                  Download_URL := url\<rparr>) jid w1)
         else (False, w1))"

text \<open>
  \<^verbatim>\<open>os.path.exists\<close> and \<^verbatim>\<open>os.remove\<close>. Removing a path with no file raises;
  removing a file raises when the environment says so, and the file stays.
\<close>

definition os_path_exists :: "string \<Rightarrow> 't world \<Rightarrow> bool" where
  "os_path_exists p w = (p \<in> files w)"

definition os_remove :: "('t, 'c) env \<Rightarrow> string \<Rightarrow> 't world \<Rightarrow> (exn + unit) \<times> 't world" where
  "os_remove env p w =
     (if p \<notin> files w then (Inl (OSError (''No such file or directory: '' @ p)), w)
      else case os_remove_error env p of
             Some e \<Rightarrow> (Inl e, w)
           | None \<Rightarrow> (Inr (), w\<lparr>files := files w - {p}\<rparr>))"

section \<open>Stage adapters\<close>

text \<open>
  \<^verbatim>\<open>_convert_video_to_mp3\<close>: \<^verbatim>\<open>None\<close> when the video does not exist or ffmpeg
  raises \<^verbatim>\<open>ffmpeg.Error\<close>; any other exception of the conversion passes through; on
  success the audio file exists and its path is returned.
  \<^verbatim>\<open>_set_raw_output\<close> returns the words of the transcriber or raises what it raises,
  and \<^verbatim>\<open>_combine_words\<close> runs \<^verbatim>\<open>_run_combine_words\<close> in a thread and returns its
  result.
\<close>

definition convert_video_to_mp3 ::
  "('t, 'c) env \<Rightarrow> string \<Rightarrow> 't world \<Rightarrow> (exn + string option) \<times> 't world" where
  "convert_video_to_mp3 env video_file w =
     (let audio_file_path = temp_dir_join env (stem env video_file @ ''.mp3'')
      in if \<not> os_path_exists video_file w then (Inr None, w)
         else case ffmpeg_run env of
                None \<Rightarrow> (Inr (Some audio_file_path), w\<lparr>files := insert audio_file_path (files w)\<rparr>)
              | Some e \<Rightarrow> if is_ffmpeg_Error e then (Inr None, w) else (Inl e, w))"

definition set_raw_output :: "('t, 'c) env \<Rightarrow> string \<Rightarrow> exn + ('t, 'c) WordInfo list" where
  "set_raw_output env audio_filename = whisper_transcribe env"

definition combine_words ::
  "('t::{zero,plus,minus,ord}, 'c) env \<Rightarrow> ('t, 'c) WordInfo list \<Rightarrow> int \<Rightarrow> 't \<Rightarrow> 't \<Rightarrow>
   ('t, 'c) LineInfo list" where
  "combine_words env data mc md mg = run_combine_words (str_isspace env) data mc md mg"

section \<open>Caption layers\<close>

text \<open>
  \<^verbatim>\<open>_get_position\<close>, \<^verbatim>\<open>_add_shadow_caption\<close> and \<^verbatim>\<open>_create_caption_clip\<close>.
  \<^verbatim>\<open>_get_position\<close> returns a position for each member of \<^verbatim>\<open>Position\<close>; the
  branch of \<^verbatim>\<open>_create_caption_clip\<close> for \<^verbatim>\<open>None\<close> is kept. Subtracting the
  start from the end of a line raises \<^verbatim>\<open>TypeError\<close> when one of them is
  \<^verbatim>\<open>None\<close>. The caption clip is built before the shadow clip, and the layers are
  returned shadow first.
\<close>

definition get_position :: "nat \<Rightarrow> Position \<Rightarrow> (xpos \<times> real) option" where
  "get_position video_height position =
     (case position of
        Position_bottom \<Rightarrow> Some (x_center, real video_height * 3 / 4)
      | Position_center \<Rightarrow> Some (x_center, real video_height * 1 / 2)
      | Position_top \<Rightarrow> Some (x_center, real video_height * 1 / 10))"

definition add_shadow_caption ::
  "'c list \<Rightarrow> string \<Rightarrow> int \<Rightarrow> 't option \<Rightarrow> 't \<Rightarrow> xpos \<times> real \<Rightarrow> int \<Rightarrow> int \<times> int \<Rightarrow>
   ('t, 'c) TextClip" where
  "add_shadow_caption text fnt fnt_size start duration position sigma offset =
     \<lparr>clip_text = text, clip_font = fnt, clip_fontsize = fnt_size, clip_color = ''black'',
      clip_stroke = None, clip_start = start, clip_duration = duration,
      clip_position =
        ((case fst position of x_center \<Rightarrow> x_center | x_at x \<Rightarrow> x_at (x + real_of_int (snd offset))),
         snd position + real_of_int (snd offset)),
      clip_blur = Some sigma\<rparr>"

definition create_caption_clip ::
  "('t::minus, 'c) env \<Rightarrow> ('t, 'c) LineInfo \<Rightarrow> nat \<times> nat \<Rightarrow> string \<Rightarrow> int \<Rightarrow> string \<Rightarrow> string \<Rightarrow>
   int \<Rightarrow> (xpos \<times> real) option \<Rightarrow> bool \<Rightarrow> exn + ('t, 'c) TextClip list" where
  "create_caption_clip env caption_line_data video_size fnt fnt_size fnt_color strk_color strk_width
       caption_position shdw =
     (let video_height = snd video_size;
          caption_position1 =
            (case caption_position of
               None \<Rightarrow> (x_center, real video_height * 3 / 4)
             | Some p \<Rightarrow> p)
      in case (l_end caption_line_data, l_start caption_line_data) of
           (Some e, Some s) \<Rightarrow>
             (let full_duration = e - s;
                  caption_clip =
                    \<lparr>clip_text = l_line caption_line_data, clip_font = fnt,
                     clip_fontsize = fnt_size, clip_color = fnt_color,
                     clip_stroke = Some (strk_color, strk_width),
                     clip_start = l_start caption_line_data,
                     clip_duration = full_duration,
                     clip_position = caption_position1, clip_blur = None\<rparr>
              in case TextClip_error env caption_clip of
                   Some ex \<Rightarrow> Inl ex
                 | None \<Rightarrow>
                     if shdw
                     then (let shadow_clip =
                                 add_shadow_caption (l_line caption_line_data) fnt fnt_size
                                   (l_start caption_line_data) full_duration caption_position1 5 (3, 3)
                           in case TextClip_error env shadow_clip of
                                Some ex \<Rightarrow> Inl ex
                              | None \<Rightarrow> Inr [shadow_clip, caption_clip])
                     else Inr [caption_clip])
         | _ \<Rightarrow> Inl (TypeError ''unsupported operand type(s) for -''))"

text \<open>
  The inner loop of \<^verbatim>\<open>_create_caption\<close>: the i-th clip of a line is appended to the
  i-th layer, and a layer that does not exist yet is created with that clip.
\<close>

fun add_layers :: "'a list list \<Rightarrow> 'a list \<Rightarrow> 'a list list" where
  "add_layers final [] = final"
| "add_layers [] (c # cs) = [c] # add_layers [] cs"
| "add_layers (l # ls) (c # cs) = (l @ [c]) # add_layers ls cs"

fun create_caption_loop ::
  "('t::minus, 'c) env \<Rightarrow> ('t, 'c) LineInfo list \<Rightarrow> nat \<times> nat \<Rightarrow> 't SubtitleOptions \<Rightarrow>
   (xpos \<times> real) option \<Rightarrow> ('t, 'c) TextClip list list \<Rightarrow> exn + ('t, 'c) TextClip list list" where
  "create_caption_loop env [] frame_size subtitle_data caption_position final = Inr final"
| "create_caption_loop env (caption # rest) frame_size subtitle_data caption_position final =
     (case create_caption_clip env caption frame_size (font subtitle_data) (font_size subtitle_data)
             (font_color subtitle_data) (stroke_color subtitle_data) (stroke_width subtitle_data)
             caption_position (shadow subtitle_data) of
        Inl e \<Rightarrow> Inl e
      | Inr caption_clip \<Rightarrow>
          create_caption_loop env rest frame_size subtitle_data caption_position
            (add_layers final caption_clip))"

text \<open>
  \<^verbatim>\<open>_create_caption\<close>: \<^verbatim>\<open>Position(subtitle_data.position_id)\<close> is evaluated
  first, before any clip is built, and raises on a value outside 1, 2, 3.
\<close>

definition create_caption ::
  "('t::minus, 'c) env \<Rightarrow> ('t, 'c) LineInfo list \<Rightarrow> nat \<times> nat \<Rightarrow> 't SubtitleOptions \<Rightarrow>
   exn + ('t, 'c) TextClip list list" where
  "create_caption env caption_data frame_size subtitle_data =
     (case Position_of_value (position_id subtitle_data) of
        Inl e \<Rightarrow> Inl e
      | Inr position \<Rightarrow>
          create_caption_loop env caption_data frame_size subtitle_data
            (get_position (snd frame_size) position) [])"

text \<open>
  \<^verbatim>\<open>_render_output_video\<close>: the composite is written to the output path, or the
  writer raises.
\<close>

definition render_output_video ::
  "('t, 'c) env \<Rightarrow> string \<Rightarrow> ('t, 'c) TextClip list \<Rightarrow> 't world \<Rightarrow> (exn + unit) \<times> 't world" where
  "render_output_video env output_file_path text_clips w =
     (case write_videofile env of
        Some e \<Rightarrow> (Inl e, w)
      | None \<Rightarrow> (Inr (), w\<lparr>files := insert output_file_path (files w)\<rparr>))"

section \<open>The pipeline\<close>

text \<open>
  \<^verbatim>\<open>VideoCaption.generate_subtitles\<close>, statement by statement. An audio file name
  that is \<^verbatim>\<open>None\<close> or empty raises \<^verbatim>\<open>ValueError\<close>. The results of the calls to
  the store are not read. The extracted audio file is removed by the last statement only,
  which is reached when no earlier statement has raised.
\<close>

definition generate_subtitles ::
  "('t::{zero,plus,minus,ord}, 'c) env \<Rightarrow> string \<Rightarrow> string \<Rightarrow> string \<Rightarrow> 't SubtitleOptions \<Rightarrow>
   't world \<Rightarrow> (exn + unit) \<times> 't world" where
  "generate_subtitles env jid input_file_path output_file_path subtitle_options w =
     (case convert_video_to_mp3 env input_file_path w of
        (Inl e, w1) \<Rightarrow> (Inl e, w1)
      | (Inr None, w1) \<Rightarrow>
          (Inl (ValueError (''Failed to convert video to audio: '' @ input_file_path)), w1)
      | (Inr (Some audio_filename), w1) \<Rightarrow>
          if audio_filename = []
          then (Inl (ValueError (''Failed to convert video to audio: '' @ input_file_path)), w1)
          else
            (let w2 = snd (update_job_status_db env jid (Status_value Processing) 25 w1)
             in case set_raw_output env audio_filename of
                  Inl e \<Rightarrow> (Inl e, w2)
                | Inr raw_output \<Rightarrow>
                    (let w3 = snd (update_job_status_db env jid (Status_value Processing) 50 w2);
                         modified_output =
                           combine_words env raw_output (max_chars subtitle_options)
                             (max_duration subtitle_options) (max_gap subtitle_options);
                         w4 = snd (update_job_status_db env jid (Status_value Processing) 65 w3)
                     in case VideoFileClip_size env of
                          Inl e \<Rightarrow> (Inl e, w4)
                        | Inr video_size \<Rightarrow>
                            (case create_caption env modified_output video_size subtitle_options of
                               Inl e \<Rightarrow> (Inl e, w4)
                             | Inr layers \<Rightarrow>
                                 (case render_output_video env output_file_path (concat layers) w4 of
                                    (Inl e, w5) \<Rightarrow> (Inl e, w5)
                                  | (Inr u, w5) \<Rightarrow>
                                      if os_path_exists audio_filename w5
                                      then os_remove env audio_filename w5
                                      else (Inr (), w5))))))"

text \<open>
  \<^verbatim>\<open>process_video_with_subtitles\<close> returns \<^verbatim>\<open>True\<close> after
  \<^verbatim>\<open>generate_subtitles\<close>, and raises what it raises.
\<close>

definition process_video_with_subtitles ::
  "('t::{zero,plus,minus,ord}, 'c) env \<Rightarrow> string \<Rightarrow> string \<Rightarrow> string \<Rightarrow> 't SubtitleOptions \<Rightarrow>
   't world \<Rightarrow> (exn + bool) \<times> 't world" where
  "process_video_with_subtitles env jid inp outp subtitle_options w =
     (case generate_subtitles env jid inp outp subtitle_options w of
        (Inl e, w1) \<Rightarrow> (Inl e, w1)
      | (Inr u, w1) \<Rightarrow> (Inr True, w1))"

text \<open>
  \<^verbatim>\<open>background_video_processing\<close>: the \<^verbatim>\<open>try\<close> block with both branches of
  \<^verbatim>\<open>if success\<close>, the handler of \<^verbatim>\<open>except Exception\<close>, and the
  \<^verbatim>\<open>finally\<close> block, whose \<^verbatim>\<open>os.remove\<close> is not guarded: what it raises leaves
  the function (\<open>Inl\<close>).
\<close>

definition background_video_processing ::
  "('t::{zero,plus,minus,ord}, 'c) env \<Rightarrow> string \<Rightarrow> string \<Rightarrow> string \<Rightarrow> 't SubtitleOptions \<Rightarrow>
   't world \<Rightarrow> (exn + unit) \<times> 't world" where
  "background_video_processing env jid inp outp subtitle_options w =
     (let w1 = snd (update_job_status_db env jid (Status_value NotStarted) 10 w);
          w3 = (case process_video_with_subtitles env jid inp outp subtitle_options w1 of
                  (Inr success, w2) \<Rightarrow>
                    if success
                    then snd (update_job_completed_db env jid w2)
                    else snd (update_job_failed_db env jid ''Error: Unable to process video'' w2)
                | (Inl e, w2) \<Rightarrow> snd (update_job_failed_db env jid (''Error: '' @ str_exn e) w2))
      in if os_path_exists inp w3 then os_remove env inp w3 else (Inr (), w3))"

text \<open>
  \<^verbatim>\<open>create_job\<close> returns the job identifier and the two paths whatever
  \<^verbatim>\<open>create_job_db\<close> returns.
\<close>

definition create_job ::
  "('t, 'c) env \<Rightarrow> string \<Rightarrow> 't SubtitleOptions \<Rightarrow> 't world \<Rightarrow>
   (string \<times> string \<times> string) \<times> 't world" where
  "create_job env video_filename subtitle_options w =
     (let jid = uuid4 env;
          input_filename = jid @ ''_input'' @ suffix env video_filename;
          output_filename = jid @ ''_output.mp4'';
          inp = temp_dir_join env input_filename;
          outp = temp_dir_join env output_filename;
          job_data = \<lparr>job_id = jid, status_id = 1, progress = 0, created_at = now env,
                      input_path = inp, output_path = outp,
                      original_filename = video_filename\<rparr>;
          w1 = snd (create_job_db env job_data subtitle_options w)
      in ((jid, inp, outp), w1))"

text \<open>
  \<^verbatim>\<open>cleanup_temp_files\<close>: each file of the temporary directory is removed inside
  \<^verbatim>\<open>try\<close>, and \<^verbatim>\<open>except: pass\<close> drops what the removal raises.
\<close>

fun cleanup_loop :: "('t, 'c) env \<Rightarrow> string list \<Rightarrow> 't world \<Rightarrow> 't world" where
  "cleanup_loop env [] w = w"
| "cleanup_loop env (file_path # rest) w =
     cleanup_loop env rest
       (if file_path \<in> files w then snd (os_remove env file_path w) else w)"

definition cleanup_temp_files :: "('t, 'c) env \<Rightarrow> 't world \<Rightarrow> 't world" where
  "cleanup_temp_files env w = cleanup_loop env (temp_dir_glob env) w"

section \<open>Stage failures and the writes that precede them\<close>

text \<open>
  Names for what the statements below say. The audio extraction fails when
  \<^verbatim>\<open>_convert_video_to_mp3\<close> raises or returns no file name; the transcription fails
  when the transcriber raises. \<open>checkpoints_written\<close> lists the progress writes that
  precede the first failing stage: none when the extraction fails, 25 when the
  transcription fails, and 25, 50, 65 otherwise.
\<close>

definition extraction_fails :: "('t, 'c) env \<Rightarrow> string \<Rightarrow> 't world \<Rightarrow> bool" where
  "extraction_fails env inp w =
     (case fst (convert_video_to_mp3 env inp w) of
        Inr (Some audio_filename) \<Rightarrow> audio_filename = []
      | _ \<Rightarrow> True)"

definition transcription_fails :: "('t, 'c) env \<Rightarrow> bool" where
  "transcription_fails env = (case whisper_transcribe env of Inl e \<Rightarrow> True | Inr ws \<Rightarrow> False)"

definition checkpoints_written :: "('t, 'c) env \<Rightarrow> string \<Rightarrow> string \<Rightarrow> 't world \<Rightarrow> db_call list" where
  "checkpoints_written env jid inp w =
     (if extraction_fails env inp w then []
      else if transcription_fails env then [UpdateStatus jid (Status_value Processing) 25]
      else [UpdateStatus jid (Status_value Processing) 25,
            UpdateStatus jid (Status_value Processing) 50,
            UpdateStatus jid (Status_value Processing) 65])"

text \<open>
  The last write of a background run, and the world at the end of its \<^verbatim>\<open>try\<close>
  statement, before the \<^verbatim>\<open>finally\<close> block.
\<close>

definition terminal_write :: "('t::{zero,plus,minus,ord}, 'c) env \<Rightarrow> string \<Rightarrow> string \<Rightarrow> string \<Rightarrow>
   't SubtitleOptions \<Rightarrow> 't world \<Rightarrow> db_call" where
  "terminal_write env jid inp outp opts w =
     (case fst (process_video_with_subtitles env jid inp outp opts
                  (snd (update_job_status_db env jid (Status_value NotStarted) 10 w))) of
        Inr b \<Rightarrow> UpdateCompleted jid (now env) (''/jobs/'' @ jid @ ''/download'')
      | Inl e \<Rightarrow> UpdateFailed jid (''Error: '' @ str_exn e))"

definition after_try :: "('t::{zero,plus,minus,ord}, 'c) env \<Rightarrow> string \<Rightarrow> string \<Rightarrow> string \<Rightarrow>
   't SubtitleOptions \<Rightarrow> 't world \<Rightarrow> 't world" where
  "after_try env jid inp outp opts w =
     (let w1 = snd (update_job_status_db env jid (Status_value NotStarted) 10 w)
      in case process_video_with_subtitles env jid inp outp opts w1 of
           (Inr success, w2) \<Rightarrow>
             if success
             then snd (update_job_completed_db env jid w2)
             else snd (update_job_failed_db env jid ''Error: Unable to process video'' w2)
         | (Inl e, w2) \<Rightarrow> snd (update_job_failed_db env jid (''Error: '' @ str_exn e) w2))"

text \<open>
  The statements of \<^verbatim>\<open>generate_subtitles\<close> that follow a successful extraction.
\<close>

definition after_extraction ::
  "('t::{zero,plus,minus,ord}, 'c) env \<Rightarrow> string \<Rightarrow> string \<Rightarrow> string \<Rightarrow> 't SubtitleOptions \<Rightarrow>
   't world \<Rightarrow> (exn + unit) \<times> 't world" where
  "after_extraction env jid audio_filename output_file_path subtitle_options w1 =
            (let w2 = snd (update_job_status_db env jid (Status_value Processing) 25 w1)
             in case set_raw_output env audio_filename of
                  Inl e \<Rightarrow> (Inl e, w2)
                | Inr raw_output \<Rightarrow>
                    (let w3 = snd (update_job_status_db env jid (Status_value Processing) 50 w2);
                         modified_output =
                           combine_words env raw_output (max_chars subtitle_options)
                             (max_duration subtitle_options) (max_gap subtitle_options);
                         w4 = snd (update_job_status_db env jid (Status_value Processing) 65 w3)
                     in case VideoFileClip_size env of
                          Inl e \<Rightarrow> (Inl e, w4)
                        | Inr video_size \<Rightarrow>
                            (case create_caption env modified_output video_size subtitle_options of
                               Inl e \<Rightarrow> (Inl e, w4)
                             | Inr layers \<Rightarrow>
                                 (case render_output_video env output_file_path (concat layers) w4 of
                                    (Inl e, w5) \<Rightarrow> (Inl e, w5)
                                  | (Inr u, w5) \<Rightarrow>
                                      if os_path_exists audio_filename w5
                                      then os_remove env audio_filename w5
                                      else (Inr (), w5)))))"

section \<open>What a call to the store writes\<close>

text \<open>
  The status and the progress a call writes, and the failure messages of a list of calls.
\<close>

fun call_status :: "db_call \<Rightarrow> int" where
  "call_status (CreateJob jid sid prog) = sid"
| "call_status (UpdateStatus jid sid prog) = sid"
| "call_status (UpdateFailed jid m) = 4"
| "call_status (UpdateCompleted jid t url) = 3"

fun call_progress :: "db_call \<Rightarrow> int" where
  "call_progress (CreateJob jid sid prog) = prog"
| "call_progress (UpdateStatus jid sid prog) = prog"
| "call_progress (UpdateFailed jid m) = 0"
| "call_progress (UpdateCompleted jid t url) = 100"

fun failed_messages :: "db_call list \<Rightarrow> string list" where
  "failed_messages [] = []"
| "failed_messages (UpdateFailed jid m # cs) = m # failed_messages cs"
| "failed_messages (c # cs) = failed_messages cs"

section \<open>A concrete run\<close>

text \<open>
  A concrete run: the default options of \<^verbatim>\<open>SubtitleOptions\<close>, an environment in which
  every external call succeeds, and a world in which job \<open>j1\<close> has been created and its
  upload stored. \<open>example_world0\<close> is the world before the job is created.
\<close>

definition example_options :: "real SubtitleOptions" where
  "example_options =
     \<lparr>font = ''Arial'', font_size = 24, font_color = ''white'', stroke_color = ''black'',
      stroke_width = 2, position_id = 1, shadow = False, max_chars = 30,
      max_duration = 5 / 2, max_gap = 3 / 2\<rparr>"

definition example_env :: "(real, char) env" where
  "example_env =
     \<lparr>str_isspace = isspace_ascii,
      uuid4 = ''j1'',
      suffix = (\<lambda>name. ''.mp4''),
      stem = (\<lambda>path. ''j1_input''),
      temp_dir_join = (\<lambda>name. ''/t/'' @ name),
      temp_dir_glob = [''/t/j1_input.mp4''],
      now = DateTime 2025 1 1 12 0 0 0,
      db_error = (\<lambda>n. False),
      os_remove_error = (\<lambda>path. None),
      ffmpeg_run = None,
      whisper_transcribe =
        Inr [\<lparr>w_start = 0, w_end = 1, w_word = '' Hi''\<rparr>, \<lparr>w_start = 3, w_end = 4, w_word = '' there''\<rparr>],
      VideoFileClip_size = Inr (1280, 720),
      TextClip_error = (\<lambda>clip. None),
      write_videofile = None\<rparr>"

definition example_world :: "real world" where
  "example_world =
     \<lparr>Jobs = [''j1'' \<mapsto>
        \<lparr>Progress = 0, Input_Path = ''/t/j1_input.mp4'', Output_Path = ''/t/j1_output.mp4'',
         Original_Filename = ''talk.mp4'', Created_At = DateTime 2025 1 1 11 59 0 0,
         Completed_At = DateTime 1 1 1 1 1 1 1, Status_ID = 1, Download_URL = [],
         Failed_Message = []\<rparr>],
      Subtitle_Options = [''j1'' \<mapsto> example_options],
      files = {''/t/j1_input.mp4''},
      db_calls = [CreateJob ''j1'' 1 0]\<rparr>"

definition example_world0 :: "real world" where
  "example_world0 = \<lparr>Jobs = Map.empty, Subtitle_Options = Map.empty, files = {}, db_calls = []\<rparr>"

section \<open>Lemmas about the segmentation\<close>

lemma loop_body_step:
  "loop_body sp data mc md mg i w (ls, cur) =
     (let gap = (if i > 0 then w_start w - w_end (data ! (i - 1)) else 0)
      in if l_line cur \<noteq> [] \<and> (time_hit cur w md \<or> chars_hit cur w mc \<or> gap_hit gap mg)
         then (ls @ [emit_line sp cur], fold_word empty_line w)
         else (ls, fold_word cur w))"
  by (cases "l_start cur")
     (simp_all add: loop_body_def Let_def time_hit_def chars_hit_def gap_hit_def emit_line_def
       fold_word_def empty_line_def)

lemma loop_segment_from:
  "rest = drop i data \<Longrightarrow>
   finish sp (for_enumerate (loop_body sp data mc md mg) i rest (ls, cur)) =
   ls @ segment_from sp mc md mg (if i = 0 then None else Some (data ! (i - 1))) cur rest"
proof (induction rest arbitrary: i ls cur)
  case Nil
  then show ?case by (simp add: finish_def)
next
  case (Cons w rest)
  from Cons.prems have i: "i < length data"
    by (metis drop_all list.distinct(1) not_le)
  from Cons.prems i have w: "data ! i = w" and rest: "rest = drop (Suc i) data"
    by (simp_all add: Cons_nth_drop_Suc [symmetric])
  let ?gap = "if i > 0 then w_start w - w_end (data ! (i - 1)) else 0"
  let ?brk = "l_line cur \<noteq> [] \<and> (time_hit cur w md \<or> chars_hit cur w mc \<or> gap_hit ?gap mg)"
  have gap: "(case (if i = 0 then None else Some (data ! (i - 1))) of
               None \<Rightarrow> 0 | Some p \<Rightarrow> w_start w - w_end p) = ?gap"
    by simp
  show ?case
  proof (cases ?brk)
    case True
    then have body: "loop_body sp data mc md mg i w (ls, cur) =
        (ls @ [emit_line sp cur], fold_word empty_line w)"
      by (simp add: loop_body_step)
    from True have seg: "segment_from sp mc md mg (if i = 0 then None else Some (data ! (i - 1))) cur (w # rest) =
        emit_line sp cur # segment_from sp mc md mg (Some w) (fold_word empty_line w) rest"
      by (cases "i = 0") (simp_all add: Let_def)
    show ?thesis
      using Cons.IH [OF rest, of "ls @ [emit_line sp cur]" "fold_word empty_line w"] w
      by (simp only: for_enumerate.simps body seg) simp
  next
    case False
    then have body: "loop_body sp data mc md mg i w (ls, cur) = (ls, fold_word cur w)"
      by (simp add: loop_body_step)
    from False have seg: "segment_from sp mc md mg (if i = 0 then None else Some (data ! (i - 1))) cur (w # rest) =
        segment_from sp mc md mg (Some w) (fold_word cur w) rest"
      by (cases "i = 0") (auto simp add: Let_def)
    show ?thesis
      using Cons.IH [OF rest, of ls "fold_word cur w"] w
      by (simp only: for_enumerate.simps body seg) simp
  qed
qed

lemma run_combine_words_eq_segment:
  "run_combine_words sp data mc md mg = segment sp data mc md mg"
proof -
  have "run_combine_words sp data mc md mg =
      finish sp (for_enumerate (loop_body sp data mc md mg) 0 data ([], empty_line))"
    by (simp add: run_combine_words_def finish_def emit_line_def Let_def)
  also have "\<dots> = [] @ segment_from sp mc md mg None empty_line data"
    using loop_segment_from [of data 0 data sp mc md mg "[]" empty_line] by simp
  finally show ?thesis by (simp add: segment_def)
qed

lemma strip_nothing: "strip (\<lambda>_. False) s = s"
  by (simp add: strip_def)

lemma concat_groups_from: "concat (groups_from mc md mg prev g ws) = g @ ws"
  by (induction ws arbitrary: prev g) (simp_all add: Let_def)

lemma line_of_Nil: "line_of (\<lambda>_. False) [] = empty_line"
  by (simp add: line_of_def empty_line_def dur_of_def text_of_def strip_nothing)

lemma fold_word_line_of:
  "fold_word (line_of (\<lambda>_. False) g) w = line_of (\<lambda>_. False) (g @ [w])"
  by (cases g) (simp_all add: fold_word_def line_of_def dur_of_def text_of_def strip_nothing)

lemma emit_line_line_of: "emit_line sp (line_of (\<lambda>_. False) g) = line_of sp g"
  by (simp add: emit_line_def line_of_def strip_nothing)

lemma l_line_line_of: "l_line (line_of (\<lambda>_. False) g) = text_of g"
  by (simp add: line_of_def strip_nothing)

lemma l_duration_line_of: "l_duration (line_of sp g) = dur_of g"
  by (simp add: line_of_def)

lemma segment_from_groups:
  "segment_from sp mc md mg prev (line_of (\<lambda>_. False) g) ws =
     map (line_of sp) (filter has_text (groups_from mc md mg prev g ws))"
proof (induction ws arbitrary: prev g)
  case Nil
  show ?case
    by (cases g) (simp_all add: l_line_line_of emit_line_line_of has_text_def text_of_def)
next
  case (Cons w ws)
  have e: "fold_word empty_line w = line_of (\<lambda>_. False) [w]"
    using fold_word_line_of [of "[]" w] by (simp add: line_of_Nil)
  show ?case
    by (simp add: Let_def l_line_line_of l_duration_line_of emit_line_line_of time_hit_def
        chars_hit_def gap_hit_def e fold_word_line_of Cons.IH has_text_def)
qed

lemma run_combine_words_groups:
  "run_combine_words sp data mc md mg =
     map (line_of sp) (filter has_text (groups data mc md mg))"
  using segment_from_groups [of sp mc md mg None "[]" data]
  by (simp add: run_combine_words_eq_segment segment_def groups_def line_of_Nil)

lemma segment_from_untrimmed:
  "segment_from sp mc md mg prev acc ws =
     map (emit_line sp) (segment_from (\<lambda>_. False) mc md mg prev acc ws)"
  by (induction ws arbitrary: prev acc) (simp_all add: Let_def emit_line_def strip_nothing)

lemma concat_segment_from:
  "concat (map l_line (segment_from (\<lambda>_. False) mc md mg prev acc ws)) =
     l_line acc @ concat (map w_word ws)"
  by (induction ws arbitrary: prev acc)
     (simp_all add: Let_def emit_line_def strip_nothing fold_word_def empty_line_def)

lemma segment_from_nonempty:
  "(segment_from sp mc md mg prev acc ws \<noteq> []) =
     (l_line acc \<noteq> [] \<or> (\<exists>w \<in> set ws. w_word w \<noteq> []))"
  by (induction ws arbitrary: prev acc)
     (auto simp add: Let_def fold_word_def empty_line_def)

lemma run_combine_words_three_words:
  fixes s0 e0 s1 e1 s2 e2 md mg :: "'t::{zero,plus,minus,ord}"
  assumes "\<not> md < (0 + (e0 - s0)) + (e1 - s1)" and "\<not> mg < s1 - e0" and "mg < s2 - e1"
  shows "map (\<lambda>l. (l_start l, l_end l, l_line l))
     (run_combine_words isspace_ascii
        [\<lparr>w_start = s0, w_end = e0, w_word = ''Hello ''\<rparr>,
         \<lparr>w_start = s1, w_end = e1, w_word = ''world ''\<rparr>,
         \<lparr>w_start = s2, w_end = e2, w_word = ''today''\<rparr>] 30 md mg) =
   [(Some s0, Some e1, ''Hello world''), (Some s2, Some e2, ''today'')]"
  using assms
  by (simp add: run_combine_words_def loop_body_def Let_def empty_line_def strip_def
      isspace_ascii_def)

lemma groups_from_no_empty: "[] \<notin> set (groups_from mc md mg prev g ws)"
  by (induction ws arbitrary: prev g) (auto simp add: Let_def text_of_def)

lemma groups_from_butlast_has_text:
  "\<forall>x \<in> set (butlast (groups_from mc md mg prev g ws)). has_text x"
  by (induction ws arbitrary: prev g) (auto simp add: Let_def has_text_def)

lemma word_with_text_in_group:
  assumes "concat gs = data" and "w \<in> set data" and "w_word w \<noteq> []"
  shows "\<exists>g \<in> set (filter has_text gs). w \<in> set g"
proof -
  from assms(1,2) obtain g where g: "g \<in> set gs" "w \<in> set g" by auto
  with assms(3) have "has_text g" by (auto simp add: has_text_def text_of_def)
  with g show ?thesis by auto
qed

lemma l_line_line_of_map:
  "map l_line (map (line_of (\<lambda>c. False)) gs) = map text_of gs"
  by (simp add: line_of_def strip_nothing comp_def)

section \<open>Lemmas about the job store and the pipeline\<close>

lemma db_attempt_simps [simp]:
  "db_calls (snd (db_attempt env c w)) = db_calls w @ [c]"
  "files (snd (db_attempt env c w)) = files w"
  "Jobs (snd (db_attempt env c w)) = Jobs w"
  "fst (db_attempt env c w) = (\<not> db_error env (length (db_calls w)))"
  by (simp_all add: db_attempt_def)

lemma update_row_simps [simp]:
  "db_calls (update_row f jid w) = db_calls w"
  "files (update_row f jid w) = files w"
  by (simp_all add: update_row_def split: option.splits)

lemma update_job_status_db_simps [simp]:
  "db_calls (snd (update_job_status_db env jid s p w)) = db_calls w @ [UpdateStatus jid s p]"
  "files (snd (update_job_status_db env jid s p w)) = files w"
  by (simp_all add: update_job_status_db_def split_beta Let_def)

lemma update_job_failed_db_simps [simp]:
  "db_calls (snd (update_job_failed_db env jid m w)) = db_calls w @ [UpdateFailed jid m]"
  "files (snd (update_job_failed_db env jid m w)) = files w"
  by (simp_all add: update_job_failed_db_def split_beta Let_def)

lemma update_job_completed_db_simps [simp]:
  "db_calls (snd (update_job_completed_db env jid w)) =
     db_calls w @ [UpdateCompleted jid (now env) (''/jobs/'' @ jid @ ''/download'')]"
  "files (snd (update_job_completed_db env jid w)) = files w"
  by (simp_all add: update_job_completed_db_def split_beta Let_def)

lemma os_remove_simps [simp]:
  "db_calls (snd (os_remove env p w)) = db_calls w"
  "Jobs (snd (os_remove env p w)) = Jobs w"
  by (simp_all add: os_remove_def split: option.splits)

lemma convert_simps [simp]:
  "db_calls (snd (convert_video_to_mp3 env p w)) = db_calls w"
  "Jobs (snd (convert_video_to_mp3 env p w)) = Jobs w"
  by (simp_all add: convert_video_to_mp3_def Let_def split: option.splits)

lemma render_simps [simp]:
  "db_calls (snd (render_output_video env p cs w)) = db_calls w"
  "Jobs (snd (render_output_video env p cs w)) = Jobs w"
  by (simp_all add: render_output_video_def split: option.splits)

lemma generate_subtitles_calls:
  "db_calls (snd (generate_subtitles env jid inp outp opts w)) =
     db_calls w @ checkpoints_written env jid inp w"
proof -
  obtain r w1 where c: "convert_video_to_mp3 env inp w = (r, w1)"
    by (cases "convert_video_to_mp3 env inp w")
  have w1: "db_calls w1 = db_calls w"
    using convert_simps(1) [of env inp w] c by simp
  show ?thesis
    using c w1
    apply (simp add: generate_subtitles_def checkpoints_written_def extraction_fails_def
        transcription_fails_def set_raw_output_def Let_def
        split: sum.splits option.splits prod.splits)
    apply (auto simp: prod_eq_iff dest!: arg_cong [where f = snd])
    done
qed

lemma convert_files_only:
  "files w' = files w \<Longrightarrow>
   fst (convert_video_to_mp3 env inp w') = fst (convert_video_to_mp3 env inp w)"
  by (simp add: convert_video_to_mp3_def os_path_exists_def Let_def split: option.splits)

lemma extraction_fails_files_only:
  "files w' = files w \<Longrightarrow> extraction_fails env inp w' = extraction_fails env inp w"
  using convert_files_only [of w' w env inp] by (simp add: extraction_fails_def)

lemma checkpoints_written_files_only:
  "files w' = files w \<Longrightarrow> checkpoints_written env jid inp w' = checkpoints_written env jid inp w"
  using extraction_fails_files_only [of w' w env inp] by (simp add: checkpoints_written_def)

lemma generate_subtitles_returns:
  "fst (generate_subtitles env jid inp outp opts w) = Inr u \<Longrightarrow>
   \<not> extraction_fails env inp w \<and> \<not> transcription_fails env"
  by (cases "convert_video_to_mp3 env inp w")
     (auto simp: generate_subtitles_def extraction_fails_def transcription_fails_def
        set_raw_output_def Let_def split: sum.splits option.splits prod.splits if_splits)

lemma process_video_snd:
  "snd (process_video_with_subtitles env jid inp outp opts w) =
     snd (generate_subtitles env jid inp outp opts w)"
  by (simp add: process_video_with_subtitles_def split: prod.splits sum.splits)

lemma process_video_fst:
  "fst (process_video_with_subtitles env jid inp outp opts w) =
     (case fst (generate_subtitles env jid inp outp opts w) of
        Inl e \<Rightarrow> Inl e
      | Inr u \<Rightarrow> Inr True)"
  by (simp add: process_video_with_subtitles_def split: prod.splits sum.splits)

lemma process_video_never_False:
  "fst (process_video_with_subtitles env jid inp outp opts w) \<noteq> Inr False"
  by (simp add: process_video_fst split: sum.splits)

lemma process_video_calls:
  "db_calls (snd (process_video_with_subtitles env jid inp outp opts w)) =
     db_calls w @ checkpoints_written env jid inp w"
  by (simp only: process_video_snd generate_subtitles_calls)

lemma process_video_returns:
  "fst (process_video_with_subtitles env jid inp outp opts w) = Inr b \<Longrightarrow>
   \<not> extraction_fails env inp w \<and> \<not> transcription_fails env"
  using generate_subtitles_returns [of env jid inp outp opts w]
  by (cases "fst (generate_subtitles env jid inp outp opts w)")
     (simp_all add: process_video_fst)

lemma background_after_try:
  "background_video_processing env jid inp outp opts w =
     (if os_path_exists inp (after_try env jid inp outp opts w)
      then os_remove env inp (after_try env jid inp outp opts w)
      else (Inr (), after_try env jid inp outp opts w))"
  by (simp only: background_video_processing_def after_try_def Let_def)

lemma after_try_calls:
  "db_calls (after_try env jid inp outp opts w) =
     db_calls w @ UpdateStatus jid (Status_value NotStarted) 10 #
       checkpoints_written env jid inp w @ [terminal_write env jid inp outp opts w]"
proof -
  let ?w1 = "snd (update_job_status_db env jid (Status_value NotStarted) 10 w)"
  obtain r w2 where p: "process_video_with_subtitles env jid inp outp opts ?w1 = (r, w2)"
    by (cases "process_video_with_subtitles env jid inp outp opts ?w1")
  have cw: "checkpoints_written env jid inp ?w1 = checkpoints_written env jid inp w"
    by (rule checkpoints_written_files_only) simp
  have w2: "db_calls w2 = db_calls w @ UpdateStatus jid (Status_value NotStarted) 10 #
      checkpoints_written env jid inp w"
    using process_video_calls [of env jid inp outp opts ?w1] p cw
    by simp
  have r: "r \<noteq> Inr False"
    using process_video_never_False [of env jid inp outp opts ?w1] p by simp
  show ?thesis
  proof (cases r)
    case (Inl e)
    with p w2 show ?thesis
      by (simp add: after_try_def terminal_write_def)
  next
    case (Inr b)
    with r have "b = True" by simp
    with Inr p w2 show ?thesis
      by (simp add: after_try_def terminal_write_def)
  qed
qed

lemma background_calls:
  "db_calls (snd (background_video_processing env jid inp outp opts w)) =
     db_calls w @ UpdateStatus jid (Status_value NotStarted) 10 #
       checkpoints_written env jid inp w @ [terminal_write env jid inp outp opts w]"
  by (simp add: background_after_try after_try_calls)

lemma os_remove_files_only:
  "files w' = files w \<Longrightarrow>
   fst (os_remove env p w') = fst (os_remove env p w) \<and>
   files (snd (os_remove env p w')) = files (snd (os_remove env p w))"
  by (simp add: os_remove_def split: option.splits)

lemma render_files_only:
  "files w' = files w \<Longrightarrow>
   fst (render_output_video env p cs w') = fst (render_output_video env p cs w) \<and>
   files (snd (render_output_video env p cs w')) = files (snd (render_output_video env p cs w))"
  by (simp add: render_output_video_def split: option.splits)

lemma convert_snd_files_only:
  "files w' = files w \<Longrightarrow>
   files (snd (convert_video_to_mp3 env inp w')) = files (snd (convert_video_to_mp3 env inp w))"
  by (simp add: convert_video_to_mp3_def os_path_exists_def Let_def split: option.splits)

lemma generate_subtitles_after_extraction:
  "generate_subtitles env jid input_file_path output_file_path subtitle_options w =
     (case convert_video_to_mp3 env input_file_path w of
        (Inl e, w1) \<Rightarrow> (Inl e, w1)
      | (Inr None, w1) \<Rightarrow>
          (Inl (ValueError (''Failed to convert video to audio: '' @ input_file_path)), w1)
      | (Inr (Some audio_filename), w1) \<Rightarrow>
          if audio_filename = []
          then (Inl (ValueError (''Failed to convert video to audio: '' @ input_file_path)), w1)
          else after_extraction env jid audio_filename output_file_path subtitle_options w1)"
  by (simp only: generate_subtitles_def after_extraction_def)

lemma after_extraction_files_only:
  assumes "files w' = files w"
  shows "fst (after_extraction env jid a outp opts w') = fst (after_extraction env jid a outp opts w)"
proof -
  let ?u = "\<lambda>p w. snd (update_job_status_db env jid (Status_value Processing) p w)"
  have f: "files (?u 65 (?u 50 (?u 25 w'))) = files (?u 65 (?u 50 (?u 25 w)))"
    using assms by simp
  show ?thesis
  proof (cases "set_raw_output env a")
    case (Inl e)
    then show ?thesis by (simp add: after_extraction_def)
  next
    case raw: (Inr raw_output)
    show ?thesis
    proof (cases "VideoFileClip_size env")
      case (Inl e)
      with raw show ?thesis by (simp add: after_extraction_def)
    next
      case size: (Inr video_size)
      show ?thesis
      proof (cases "create_caption env (combine_words env raw_output (max_chars opts)
          (max_duration opts) (max_gap opts)) video_size opts")
        case (Inl e)
        with raw size show ?thesis by (simp add: after_extraction_def)
      next
        case layers: (Inr layers)
        let ?R = "\<lambda>w. render_output_video env outp (concat layers) (?u 65 (?u 50 (?u 25 w)))"
        from render_files_only [OF f, of env outp "concat layers"]
        have rf: "fst (?R w') = fst (?R w)" and rs: "files (snd (?R w')) = files (snd (?R w))"
          by simp_all
        from os_remove_files_only [OF rs, of env a]
        have o: "fst (os_remove env a (snd (?R w'))) = fst (os_remove env a (snd (?R w)))"
          by simp
        have e: "fst (after_extraction env jid a outp opts v) =
            (case fst (?R v) of Inl e \<Rightarrow> Inl e
             | Inr u \<Rightarrow> if a \<in> files (snd (?R v)) then fst (os_remove env a (snd (?R v))) else Inr ())"
          for v
          using raw size layers
          by (cases "?R v")
             (auto simp add: after_extraction_def Let_def os_path_exists_def split: sum.splits)
        show ?thesis
          by (simp only: e rf rs o)
      qed
    qed
  qed
qed

lemma generate_subtitles_files_only:
  assumes "files w' = files w"
  shows "fst (generate_subtitles env jid inp outp opts w') =
         fst (generate_subtitles env jid inp outp opts w)"
proof -
  obtain r w1 where c: "convert_video_to_mp3 env inp w = (r, w1)"
    by (cases "convert_video_to_mp3 env inp w")
  obtain r' w1' where c': "convert_video_to_mp3 env inp w' = (r', w1')"
    by (cases "convert_video_to_mp3 env inp w'")
  from convert_files_only [OF assms, of env inp] c c' have r: "r' = r" by simp
  from convert_snd_files_only [OF assms, of env inp] c c' have f: "files w1' = files w1" by simp
  show ?thesis
    using c c' r after_extraction_files_only [OF f, of env jid _ outp opts]
    by (simp add: generate_subtitles_after_extraction split: sum.splits option.splits)
qed

lemma process_video_files_only:
  "files w' = files w \<Longrightarrow>
   fst (process_video_with_subtitles env jid inp outp opts w') =
   fst (process_video_with_subtitles env jid inp outp opts w)"
  using generate_subtitles_files_only [of w' w env jid inp outp opts]
  by (simp add: process_video_fst)

lemma terminal_write_eq:
  "terminal_write env jid inp outp opts w =
     (case fst (process_video_with_subtitles env jid inp outp opts w) of
        Inr b \<Rightarrow> UpdateCompleted jid (now env) (''/jobs/'' @ jid @ ''/download'')
      | Inl e \<Rightarrow> UpdateFailed jid (''Error: '' @ str_exn e))"
proof -
  have "fst (process_video_with_subtitles env jid inp outp opts
        (snd (update_job_status_db env jid (Status_value NotStarted) 10 w))) =
      fst (process_video_with_subtitles env jid inp outp opts w)"
    by (rule process_video_files_only) simp
  then show ?thesis by (simp only: terminal_write_def)
qed

lemma update_row_Jobs:
  "Jobs (update_row f jid w) j = (if j = jid then map_option f (Jobs w j) else Jobs w j)"
  by (simp add: update_row_def split: option.splits)

lemma Jobs_update_job_status_db:
  "Jobs (snd (update_job_status_db env jid s p w)) j =
     (if j = jid \<and> \<not> db_error env (length (db_calls w))
      then map_option (\<lambda>r. r\<lparr>Status_ID := s, Progress := p\<rparr>) (Jobs w j)
      else Jobs w j)"
  by (simp add: update_job_status_db_def split_beta update_row_Jobs)

lemma Jobs_update_job_failed_db:
  "Jobs (snd (update_job_failed_db env jid m w)) j =
     (if j = jid \<and> \<not> db_error env (length (db_calls w))
      then map_option (\<lambda>r. r\<lparr>Status_ID := 4, Progress := 0, Failed_Message := m\<rparr>) (Jobs w j)
      else Jobs w j)"
  by (simp add: update_job_failed_db_def split_beta update_row_Jobs)

lemma Jobs_update_job_completed_db:
  "Jobs (snd (update_job_completed_db env jid w)) j =
     (if j = jid \<and> \<not> db_error env (length (db_calls w))
      then map_option (\<lambda>r. r\<lparr>Status_ID := 3, Progress := 100, Completed_At := now env,
                               Download_URL := ''/jobs/'' @ jid @ ''/download''\<rparr>) (Jobs w j)
      else Jobs w j)"
  by (simp add: update_job_completed_db_def split_beta update_row_Jobs Let_def)

lemma known_update_job_status_db [simp]:
  "(Jobs (snd (update_job_status_db env jid s p w)) j = None) = (Jobs w j = None)"
  by (simp add: Jobs_update_job_status_db)

lemma known_after_extraction:
  "(Jobs (snd (after_extraction env jid a outp opts w)) j = None) = (Jobs w j = None)"
proof -
  let ?u = "\<lambda>p w. snd (update_job_status_db env jid (Status_value Processing) p w)"
  have k: "(Jobs (?u 65 (?u 50 (?u 25 w))) j = None) = (Jobs w j = None)"
    "(Jobs (?u 25 w) j = None) = (Jobs w j = None)"
    by simp_all
  show ?thesis
  proof (cases "set_raw_output env a")
    case (Inl e)
    then show ?thesis using k by (simp add: after_extraction_def)
  next
    case raw: (Inr raw_output)
    show ?thesis
    proof (cases "VideoFileClip_size env")
      case (Inl e)
      with raw show ?thesis using k by (simp add: after_extraction_def)
    next
      case size: (Inr video_size)
      show ?thesis
      proof (cases "create_caption env (combine_words env raw_output (max_chars opts)
          (max_duration opts) (max_gap opts)) video_size opts")
        case (Inl e)
        with raw size show ?thesis using k by (simp add: after_extraction_def)
      next
        case layers: (Inr layers)
        let ?R = "render_output_video env outp (concat layers) (?u 65 (?u 50 (?u 25 w)))"
        have "Jobs (snd (after_extraction env jid a outp opts w)) = Jobs (snd ?R)"
          using raw size layers
          by (cases ?R)
             (auto simp add: after_extraction_def Let_def split: sum.splits
                dest: arg_cong [where f = "\<lambda>x. Jobs (snd x)"])
        then show ?thesis using k by simp
      qed
    qed
  qed
qed

lemma known_generate_subtitles:
  "(Jobs (snd (generate_subtitles env jid inp outp opts w)) j = None) = (Jobs w j = None)"
proof -
  obtain r w1 where c: "convert_video_to_mp3 env inp w = (r, w1)"
    by (cases "convert_video_to_mp3 env inp w")
  with convert_simps(2) [of env inp w] have j: "Jobs w1 = Jobs w" by simp
  show ?thesis
    using c j known_after_extraction [of env jid _ outp opts w1 j]
    by (simp add: generate_subtitles_after_extraction split: sum.splits option.splits)
qed

lemma after_try_row:
  assumes known: "Jobs w jid \<noteq> None"
    and ok: "\<not> db_error env (Suc (length (db_calls w) + length (checkpoints_written env jid inp w)))"
  shows "\<exists>r. Jobs (after_try env jid inp outp opts w) jid =
      Some (case fst (process_video_with_subtitles env jid inp outp opts w) of
              Inl e \<Rightarrow> r\<lparr>Status_ID := 4, Progress := 0, Failed_Message := ''Error: '' @ str_exn e\<rparr>
            | Inr b \<Rightarrow> r\<lparr>Status_ID := 3, Progress := 100, Completed_At := now env,
                          Download_URL := ''/jobs/'' @ jid @ ''/download''\<rparr>)"
proof -
  let ?w1 = "snd (update_job_status_db env jid (Status_value NotStarted) 10 w)"
  obtain x w2 where p: "process_video_with_subtitles env jid inp outp opts ?w1 = (x, w2)"
    by (cases "process_video_with_subtitles env jid inp outp opts ?w1")
  have cw: "checkpoints_written env jid inp ?w1 = checkpoints_written env jid inp w"
    by (rule checkpoints_written_files_only) simp
  have len: "length (db_calls w2) =
      Suc (length (db_calls w) + length (checkpoints_written env jid inp w))"
    using process_video_calls [of env jid inp outp opts ?w1] p cw by simp
  have "Jobs w2 jid \<noteq> None"
    using known known_generate_subtitles [of env jid inp outp opts ?w1 jid] p
      process_video_snd [of env jid inp outp opts ?w1]
    by simp
  then obtain r where r: "Jobs w2 jid = Some r" by blast
  have x: "fst (process_video_with_subtitles env jid inp outp opts w) = x"
    using process_video_files_only [of ?w1 w env jid inp outp opts] p by simp
  have nf: "x \<noteq> Inr False"
    using process_video_never_False [of env jid inp outp opts ?w1] p by simp
  show ?thesis
  proof (cases x)
    case (Inl e)
    with p r ok len x show ?thesis
      by (auto simp add: after_try_def Jobs_update_job_failed_db intro!: exI [of _ r])
  next
    case (Inr b)
    with nf have "b = True" by simp
    with Inr p r ok len x show ?thesis
      by (auto simp add: after_try_def Jobs_update_job_completed_db intro!: exI [of _ r])
  qed
qed

lemma background_Jobs:
  "Jobs (snd (background_video_processing env jid inp outp opts w)) =
     Jobs (after_try env jid inp outp opts w)"
  by (simp add: background_after_try)

lemma background_removes_input:
  "os_remove_error env inp = None \<Longrightarrow>
   inp \<notin> files (snd (background_video_processing env jid inp outp opts w)) \<and>
   fst (background_video_processing env jid inp outp opts w) = Inr ()"
  by (simp add: background_after_try os_path_exists_def os_remove_def)

lemma background_success:
  assumes "fst (process_video_with_subtitles env jid inp outp opts w) = Inr b"
  shows "db_calls (snd (background_video_processing env jid inp outp opts w)) =
       db_calls w @
         [UpdateStatus jid (Status_value NotStarted) 10,
          UpdateStatus jid (Status_value Processing) 25,
          UpdateStatus jid (Status_value Processing) 50,
          UpdateStatus jid (Status_value Processing) 65,
          UpdateCompleted jid (now env) (''/jobs/'' @ jid @ ''/download'')]"
  using assms process_video_returns [OF assms]
  by (simp add: background_calls terminal_write_eq checkpoints_written_def)

lemma background_failure:
  assumes "fst (process_video_with_subtitles env jid inp outp opts w) = Inl e"
  shows "db_calls (snd (background_video_processing env jid inp outp opts w)) =
       db_calls w @ UpdateStatus jid (Status_value NotStarted) 10 #
         checkpoints_written env jid inp w @ [UpdateFailed jid (''Error: '' @ str_exn e)]"
  using assms by (simp add: background_calls terminal_write_eq)

lemma checkpoints_written_status:
  "c \<in> set (checkpoints_written env jid inp w) \<Longrightarrow> call_status c = 2"
  by (auto simp: checkpoints_written_def split: if_splits)

lemma failed_messages_append:
  "failed_messages (xs @ ys) = failed_messages xs @ failed_messages ys"
  by (induction xs rule: failed_messages.induct) simp_all

lemma failed_messages_checkpoints:
  "failed_messages (checkpoints_written env jid inp w) = []"
  by (simp add: checkpoints_written_def)

lemmas pipeline_defs =
  generate_subtitles_def process_video_with_subtitles_def convert_video_to_mp3_def
  set_raw_output_def combine_words_def create_caption_def create_caption_clip_def
  render_output_video_def os_path_exists_def os_remove_def update_job_status_db_def
  update_job_failed_db_def update_job_completed_db_def db_attempt_def update_row_def
  Position_of_value_def get_position_def add_shadow_caption_def
  run_combine_words_def loop_body_def empty_line_def strip_def isspace_ascii_def

lemma example_run_returns:
  "fst (process_video_with_subtitles example_env ''j1'' ''/t/j1_input.mp4'' ''/t/j1_output.mp4''
          example_options example_world) = Inr True"
  by (simp add: pipeline_defs example_env_def example_options_def example_world_def Let_def)

lemma example_run_transcription_fails:
  "fst (process_video_with_subtitles (example_env\<lparr>whisper_transcribe := Inl (RuntimeError ''no model'')\<rparr>)
          ''j1'' ''/t/j1_input.mp4'' ''/t/j1_output.mp4''
          example_options example_world) = Inl (RuntimeError ''no model'')"
  by (simp add: pipeline_defs example_env_def example_options_def example_world_def Let_def)

lemma example_failing_run_checkpoints:
  "checkpoints_written (example_env\<lparr>whisper_transcribe := Inl (RuntimeError ''no model'')\<rparr>)
     ''j1'' ''/t/j1_input.mp4'' example_world = [UpdateStatus ''j1'' 2 25]"
  by (simp add: checkpoints_written_def extraction_fails_def transcription_fails_def
      convert_video_to_mp3_def os_path_exists_def example_env_def example_world_def Let_def)

lemma create_caption_invalid_position:
  "position_id opts \<notin> {1, 2, 3} \<Longrightarrow>
   create_caption env lines sz opts =
     Inl (ValueError (str_int (position_id opts) @ '' is not a valid Position''))"
  by (simp add: create_caption_def Position_of_value_def)

lemma after_extraction_invalid_position:
  assumes "position_id opts \<notin> {1, 2, 3}"
  shows "fst (after_extraction env jid a outp opts w) =
     (case whisper_transcribe env of
        Inl e \<Rightarrow> Inl e
      | Inr raw \<Rightarrow>
          (case VideoFileClip_size env of
             Inl e \<Rightarrow> Inl e
           | Inr sz \<Rightarrow> Inl (ValueError (str_int (position_id opts) @ '' is not a valid Position''))))"
  by (simp add: after_extraction_def set_raw_output_def Let_def
      create_caption_invalid_position [OF assms] split: sum.splits)

lemma generate_subtitles_invalid_position:
  assumes "position_id opts \<notin> {1, 2, 3}"
  shows "\<exists>e. fst (generate_subtitles env jid inp outp opts w) = Inl e"
proof -
  obtain r w1 where c: "convert_video_to_mp3 env inp w = (r, w1)"
    by (cases "convert_video_to_mp3 env inp w")
  show ?thesis
    using c after_extraction_invalid_position [OF assms, of env jid _ outp w1]
    by (auto simp add: generate_subtitles_after_extraction split: sum.splits option.splits)
qed

lemma generate_subtitles_invalid_position_reached:
  assumes "position_id opts \<notin> {1, 2, 3}"
    and "\<not> extraction_fails env inp w" and "\<not> transcription_fails env"
    and "VideoFileClip_size env = Inr sz"
  shows "fst (generate_subtitles env jid inp outp opts w) =
     Inl (ValueError (str_int (position_id opts) @ '' is not a valid Position''))"
proof -
  obtain r w1 where c: "convert_video_to_mp3 env inp w = (r, w1)"
    by (cases "convert_video_to_mp3 env inp w")
  show ?thesis
    using c assms(2-4) after_extraction_invalid_position [OF assms(1), of env jid _ outp w1]
    by (auto simp add: generate_subtitles_after_extraction extraction_fails_def
        transcription_fails_def split: sum.splits option.splits)
qed

lemma str_int_7: "str_int 7 = ''7''"
  by code_simp

lemma example_bg_failing_files:
  "files (snd (background_video_processing
          (example_env\<lparr>whisper_transcribe := Inl (RuntimeError ''no model'')\<rparr>)
          ''j1'' ''/t/j1_input.mp4'' ''/t/j1_output.mp4'' example_options example_world)) =
   {''/t/j1_input.mp3''}"
  by (auto simp add: background_video_processing_def pipeline_defs example_env_def example_options_def
      example_world_def Let_def)

lemma example_bg_ok_files:
  "files (snd (background_video_processing example_env
          ''j1'' ''/t/j1_input.mp4'' ''/t/j1_output.mp4'' example_options example_world)) =
   {''/t/j1_output.mp4''}"
  by (auto simp add: background_video_processing_def pipeline_defs example_env_def example_options_def
      example_world_def Let_def)

lemma example_invalid_position_run:
  "fst (process_video_with_subtitles example_env ''j1'' ''/t/j1_input.mp4'' ''/t/j1_output.mp4''
          (example_options\<lparr>position_id := 7\<rparr>) example_world) =
     Inl (ValueError ''7 is not a valid Position'')"
  by (simp add: pipeline_defs example_env_def example_options_def example_world_def Let_def
      str_int_7)

lemma example_checkpoints_all:
  "checkpoints_written example_env ''j1'' ''/t/j1_input.mp4'' example_world =
     [UpdateStatus ''j1'' 2 25, UpdateStatus ''j1'' 2 50, UpdateStatus ''j1'' 2 65]"
  by (simp add: checkpoints_written_def extraction_fails_def transcription_fails_def
      convert_video_to_mp3_def os_path_exists_def example_env_def example_world_def Let_def)

lemma cleanup_loop_silent:
  "Jobs (cleanup_loop env ps w) = Jobs w \<and> db_calls (cleanup_loop env ps w) = db_calls w"
  by (induction ps arbitrary: w) simp_all

lemma cleanup_temp_files_silent:
  "Jobs (cleanup_temp_files env w) = Jobs w \<and>
   db_calls (cleanup_temp_files env w) = db_calls w"
  by (simp add: cleanup_temp_files_def cleanup_loop_silent)

lemma example_audio_busy_run:
  "fst (process_video_with_subtitles
          (example_env\<lparr>os_remove_error :=
             (\<lambda>path. if path = ''/t/j1_input.mp3'' then Some (OSError ''busy'') else None)\<rparr>)
          ''j1'' ''/t/j1_input.mp4'' ''/t/j1_output.mp4'' example_options example_world) =
     Inl (OSError ''busy'')"
  by (simp add: pipeline_defs example_env_def example_options_def example_world_def Let_def)

lemma example_audio_busy_files:
  "files (snd (background_video_processing
          (example_env\<lparr>os_remove_error :=
             (\<lambda>path. if path = ''/t/j1_input.mp3'' then Some (OSError ''busy'') else None)\<rparr>)
          ''j1'' ''/t/j1_input.mp4'' ''/t/j1_output.mp4'' example_options example_world)) =
   {''/t/j1_output.mp4'', ''/t/j1_input.mp3''}"
  by (auto simp add: background_video_processing_def pipeline_defs example_env_def
      example_options_def example_world_def Let_def)

lemma example_input_busy_return:
  "fst (background_video_processing
          (example_env\<lparr>os_remove_error :=
             (\<lambda>path. if path = ''/t/j1_input.mp4'' then Some (OSError ''busy'') else None)\<rparr>)
          ''j1'' ''/t/j1_input.mp4'' ''/t/j1_output.mp4'' example_options example_world) =
     Inl (OSError ''busy'')"
  by (simp add: background_video_processing_def pipeline_defs example_env_def
      example_options_def example_world_def Let_def)

lemma generate_subtitles_returns_iff:
  "(fst (generate_subtitles env jid inp outp opts w) = Inr ()) =
   (inp \<in> files w \<and> ffmpeg_run env = None \<and>
    temp_dir_join env (stem env inp @ ''.mp3'') \<noteq> [] \<and>
    (\<exists>raw sz layers. whisper_transcribe env = Inr raw \<and> VideoFileClip_size env = Inr sz \<and>
       create_caption env
         (combine_words env raw (max_chars opts) (max_duration opts) (max_gap opts)) sz opts =
         Inr layers) \<and>
    write_videofile env = None \<and>
    os_remove_error env (temp_dir_join env (stem env inp @ ''.mp3'')) = None)"
  by (auto simp add: generate_subtitles_def convert_video_to_mp3_def set_raw_output_def
      render_output_video_def os_path_exists_def os_remove_def Let_def
      split: sum.splits option.splits if_splits)

lemma example_audio_busy_calls:
  "db_calls (snd (background_video_processing
          (example_env\<lparr>os_remove_error :=
             (\<lambda>path. if path = ''/t/j1_input.mp3'' then Some (OSError ''busy'') else None)\<rparr>)
          ''j1'' ''/t/j1_input.mp4'' ''/t/j1_output.mp4'' example_options example_world)) =
     [CreateJob ''j1'' 1 0, UpdateStatus ''j1'' 1 10, UpdateStatus ''j1'' 2 25,
      UpdateStatus ''j1'' 2 50, UpdateStatus ''j1'' 2 65, UpdateFailed ''j1'' ''Error: busy'']"
proof -
  let ?env = "example_env\<lparr>os_remove_error :=
      (\<lambda>path. if path = ''/t/j1_input.mp3'' then Some (OSError ''busy'') else None)\<rparr>"
  have cps: "checkpoints_written ?env ''j1'' ''/t/j1_input.mp4'' example_world =
      [UpdateStatus ''j1'' 2 25, UpdateStatus ''j1'' 2 50, UpdateStatus ''j1'' 2 65]"
    by (simp add: checkpoints_written_def extraction_fails_def transcription_fails_def
        convert_video_to_mp3_def os_path_exists_def example_env_def example_world_def Let_def)
  have c: "db_calls example_world = [CreateJob ''j1'' 1 0]" by (simp add: example_world_def)
  show ?thesis
    using background_failure [OF example_audio_busy_run] by (simp add: cps c)
qed

lemma example_audio_busy_row:
  "\<exists>r. Jobs (snd (background_video_processing
          (example_env\<lparr>os_remove_error :=
             (\<lambda>path. if path = ''/t/j1_input.mp3'' then Some (OSError ''busy'') else None)\<rparr>)
          ''j1'' ''/t/j1_input.mp4'' ''/t/j1_output.mp4'' example_options example_world)) ''j1'' =
        Some r \<and> Status_ID r = 4 \<and> Progress r = 0 \<and> Failed_Message r = ''Error: busy'' \<and>
        Download_URL r = []"
  by (simp add: background_video_processing_def pipeline_defs example_env_def
      example_options_def example_world_def Let_def)

section \<open>Claims about the segmentation\<close>

text \<open>
  C1. The source's loop computes the greedy pass of the specification: for every whitespace
  predicate, every word list and all three limits, \<open>run_combine_words\<close> returns what
  \<open>segment\<close> returns. In \<open>segment\<close> the triggers are \<open>time_hit\<close> (accumulated duration
  plus the word's duration strictly above \<open>max_duration\<close>), \<open>chars_hit\<close> (accumulated
  length plus the word's length at least \<open>max_chars\<close>) and \<open>gap_hit\<close> (start minus the
  previous word's end, 0 for the first word, strictly above \<open>max_gap\<close>), all read before
  the word is added; the accumulator is emitted trimmed exactly when its text is not empty
  and a trigger fires, and the word is folded into the accumulator that results.
\<close>

theorem run_combine_words_is_segment:
  "run_combine_words isspace data mc md mg =
     segment isspace data mc md mg"
  by (rule run_combine_words_eq_segment)

text \<open>
  C2, as the claim states it, fails: a word list that is not empty but whose words all have
  the empty text gives no line, since the source appends the last accumulator only when
  its text is not empty.
\<close>

theorem run_combine_words_empty_text_no_line:
  "[\<lparr>w_start = 0, w_end = 1 :: real, w_word = ''''\<rparr>] \<noteq> [] \<and>
   run_combine_words isspace_ascii [\<lparr>w_start = 0, w_end = 1 :: real, w_word = ''''\<rparr>]
     30 (5 / 2) (3 / 2) = []"
  by (simp add: run_combine_words_def loop_body_def Let_def empty_line_def)

text \<open>
  C2, amended. For every word list, \<open>groups\<close> cuts the input, in order, into runs of
  consecutive whole words: the runs concatenated are the input, so no word is split or
  duplicated and none is left out of the runs, and no run is empty. The text of each line
  before trimming (the run with a whitespace predicate that accepts no character) is the
  concatenation of the texts of the words of one run, one line per run that has a text, in
  order; the lines returned are these lines with their texts trimmed. Every run but the
  last has a text, so the only words that reach no line are the words, all with an empty
  text, of a last run without text: every word with a text that is not empty is in the run
  of a line. Hence the texts of the lines before trimming, concatenated, are the texts of
  the words, concatenated, and at least one line is returned exactly when some word has a
  text that is not empty.
\<close>

theorem run_combine_words_repartitions_text:
  "concat (groups data mc md mg) = data \<and>
   [] \<notin> set (groups data mc md mg) \<and>
   (\<forall>g \<in> set (butlast (groups data mc md mg)). has_text g) \<and>
   (\<forall>w \<in> set data. w_word w \<noteq> [] \<longrightarrow>
      (\<exists>g \<in> set (filter has_text (groups data mc md mg)). w \<in> set g)) \<and>
   map l_line (run_combine_words (\<lambda>c. False) data mc md mg) =
     map text_of (filter has_text (groups data mc md mg)) \<and>
   run_combine_words isspace data mc md mg =
     map (emit_line isspace) (run_combine_words (\<lambda>c. False) data mc md mg) \<and>
   concat (map l_line (run_combine_words (\<lambda>c. False) data mc md mg)) =
     concat (map w_word data) \<and>
   (run_combine_words isspace data mc md mg \<noteq> []) = (\<exists>w \<in> set data. w_word w \<noteq> [])"
proof -
  have p: "concat (groups data mc md mg) = data"
    by (simp add: groups_def concat_groups_from)
  have n: "[] \<notin> set (groups data mc md mg)"
    by (simp add: groups_def groups_from_no_empty)
  have b: "\<forall>g \<in> set (butlast (groups data mc md mg)). has_text g"
    unfolding groups_def by (rule groups_from_butlast_has_text)
  have i: "\<forall>w \<in> set data. w_word w \<noteq> [] \<longrightarrow>
      (\<exists>g \<in> set (filter has_text (groups data mc md mg)). w \<in> set g)"
    using word_with_text_in_group [OF p] by blast
  have t: "map l_line (run_combine_words (\<lambda>c. False) data mc md mg) =
      map text_of (filter has_text (groups data mc md mg))"
    by (simp only: run_combine_words_groups l_line_line_of_map)
  have e: "run_combine_words isspace data mc md mg =
      map (emit_line isspace) (run_combine_words (\<lambda>c. False) data mc md mg)"
    using segment_from_untrimmed [of isspace mc md mg None empty_line data]
    by (simp add: run_combine_words_eq_segment segment_def)
  have c: "concat (map l_line (run_combine_words (\<lambda>c. False) data mc md mg)) =
      concat (map w_word data)"
    using concat_segment_from [of mc md mg None empty_line data]
    by (simp add: run_combine_words_eq_segment segment_def empty_line_def)
  have l: "(run_combine_words isspace data mc md mg \<noteq> []) = (\<exists>w \<in> set data. w_word w \<noteq> [])"
    using segment_from_nonempty [of isspace mc md mg None empty_line data]
    by (simp add: run_combine_words_eq_segment segment_def empty_line_def)
  from p n b i t e c l show ?thesis by blast
qed

theorem run_combine_words_repartitions_text_witness:
  "(\<exists>w \<in> set [\<lparr>w_start = 0, w_end = 1 :: real, w_word = '' so''\<rparr>,
                 \<lparr>w_start = 5, w_end = 6, w_word = '' far''\<rparr>]. w_word w \<noteq> []) \<and>
   groups [\<lparr>w_start = 0, w_end = 1 :: real, w_word = '' so''\<rparr>,
           \<lparr>w_start = 5, w_end = 6, w_word = '' far''\<rparr>] 30 (5 / 2) (3 / 2) =
     [[\<lparr>w_start = 0, w_end = 1, w_word = '' so''\<rparr>],
      [\<lparr>w_start = 5, w_end = 6, w_word = '' far''\<rparr>]] \<and>
   has_text [\<lparr>w_start = 0, w_end = 1 :: real, w_word = '' so''\<rparr>] \<and>
   map l_line (run_combine_words (\<lambda>c. False)
     [\<lparr>w_start = 0, w_end = 1 :: real, w_word = '' so''\<rparr>,
      \<lparr>w_start = 5, w_end = 6, w_word = '' far''\<rparr>] 30 (5 / 2) (3 / 2)) = ['' so'', '' far''] \<and>
   map l_line (run_combine_words isspace_ascii
     [\<lparr>w_start = 0, w_end = 1 :: real, w_word = '' so''\<rparr>,
      \<lparr>w_start = 5, w_end = 6, w_word = '' far''\<rparr>] 30 (5 / 2) (3 / 2)) = [''so'', ''far''] \<and>
   run_combine_words isspace_ascii
     [\<lparr>w_start = 0, w_end = 1 :: real, w_word = '' so''\<rparr>,
      \<lparr>w_start = 5, w_end = 6, w_word = '' far''\<rparr>] 30 (5 / 2) (3 / 2) \<noteq> []"
proof -
  let ?w1 = "\<lparr>w_start = 0, w_end = 1 :: real, w_word = '' so''\<rparr>"
  let ?w2 = "\<lparr>w_start = 5, w_end = 6 :: real, w_word = '' far''\<rparr>"
  let ?D = "[?w1, ?w2]"
  note t = run_combine_words_repartitions_text [of ?D 30 "5 / 2" "3 / 2" isspace_ascii]
  have h: "\<exists>w \<in> set ?D. w_word w \<noteq> []" by simp
  have g: "groups ?D 30 (5 / 2) (3 / 2) = [[?w1], [?w2]]"
    by (simp add: groups_def text_of_def dur_of_def Let_def)
  from t have "\<forall>x \<in> set (butlast (groups ?D 30 (5 / 2) (3 / 2))). has_text x" by blast
  then have b: "has_text [?w1]" by (simp add: g)
  have f: "filter has_text (groups ?D 30 (5 / 2) (3 / 2)) = [[?w1], [?w2]]"
    unfolding g by (simp add: has_text_def text_of_def)
  from t have m: "map l_line (run_combine_words (\<lambda>c. False) ?D 30 (5 / 2) (3 / 2)) =
      map text_of (filter has_text (groups ?D 30 (5 / 2) (3 / 2)))" by blast
  have r: "map l_line (run_combine_words (\<lambda>c. False) ?D 30 (5 / 2) (3 / 2)) =
      ['' so'', '' far'']"
    unfolding m f by (simp add: text_of_def)
  from t have "run_combine_words isspace_ascii ?D 30 (5 / 2) (3 / 2) =
      map (emit_line isspace_ascii) (run_combine_words (\<lambda>c. False) ?D 30 (5 / 2) (3 / 2))"
    by blast
  then have "map l_line (run_combine_words isspace_ascii ?D 30 (5 / 2) (3 / 2)) =
      map (strip isspace_ascii) (map l_line (run_combine_words (\<lambda>c. False) ?D 30 (5 / 2) (3 / 2)))"
    by (simp add: emit_line_def comp_def)
  then have s: "map l_line (run_combine_words isspace_ascii ?D 30 (5 / 2) (3 / 2)) =
      [''so'', ''far'']"
    by (simp add: r strip_def isspace_ascii_def)
  from t h have n: "run_combine_words isspace_ascii ?D 30 (5 / 2) (3 / 2) \<noteq> []" by blast
  from h g b r s n show ?thesis by blast
qed

text \<open>
  C5. The scenario of the specification: the words \<open>Hello \<close> (0.0 to 0.4), \<open>world \<close>
  (0.5 to 0.9) and \<open>today\<close> (3.0 to 3.4) with \<open>max_chars = 30\<close>, \<open>max_duration = 2.5\<close> and
  \<open>max_gap = 1.5\<close> give exactly two lines, the first from 0.0 to 0.9 with the text
  \<open>Hello world\<close>, the second from 3.0 to 3.4 with the text \<open>today\<close>. The times are
  taken as reals; start and end are copied from the words, and each comparison the run
  makes (0.8 against 2.5, 0.1 and 2.1 against 1.5) is decided by a margin far above the
  rounding of doubles.
\<close>

theorem run_combine_words_hello_world_today:
  "map (\<lambda>l. (l_start l, l_end l, l_line l))
     (run_combine_words isspace_ascii
        [\<lparr>w_start = 0, w_end = 4 / 10, w_word = ''Hello ''\<rparr>,
         \<lparr>w_start = 5 / 10, w_end = 9 / 10, w_word = ''world ''\<rparr>,
         \<lparr>w_start = 3, w_end = 34 / 10, w_word = ''today''\<rparr>]
        30 (25 / 10) (15 / 10 :: real)) =
   [(Some 0, Some (9 / 10), ''Hello world''), (Some 3, Some (34 / 10), ''today'')]"
  by (rule run_combine_words_three_words) simp_all

text \<open>
  C6. The lines returned are the lines of the groups of words that have a text, the groups
  partition the input in order, and the duration of each line is the sum of the durations
  \<open>w_end w - w_start w\<close> of the words of its group, added up from 0: it is not the end of
  the line minus its start. The second part is a run with a gap between two words of one
  line, whose duration 2 is strictly below its end minus its start, 3.
\<close>

theorem run_combine_words_duration_sums_words:
  "run_combine_words isspace data mc md mg =
     map (line_of isspace) (filter has_text (groups data mc md mg)) \<and>
   concat (groups data mc md mg) = data \<and>
   map l_duration (run_combine_words isspace data mc md mg) =
     map dur_of (filter has_text (groups data mc md mg)) \<and>
   run_combine_words isspace_ascii
     [\<lparr>w_start = 0, w_end = 1, w_word = ''a ''\<rparr>, \<lparr>w_start = 2, w_end = 3, w_word = ''b''\<rparr>]
     30 (5 / 2) (3 / 2 :: real) =
     [\<lparr>l_start = Some 0, l_end = Some 3, l_duration = 2, l_line = ''a b''\<rparr>] \<and>
   (2 :: real) < 3 - 0"
proof -
  have a: "run_combine_words isspace data mc md mg =
      map (line_of isspace) (filter has_text (groups data mc md mg))"
    by (rule run_combine_words_groups)
  have b: "concat (groups data mc md mg) = data"
    by (simp add: groups_def concat_groups_from)
  have c: "map l_duration (run_combine_words isspace data mc md mg) =
      map dur_of (filter has_text (groups data mc md mg))"
    by (simp add: a l_duration_line_of comp_def)
  have d: "run_combine_words isspace_ascii
      [\<lparr>w_start = 0, w_end = 1, w_word = ''a ''\<rparr>, \<lparr>w_start = 2, w_end = 3, w_word = ''b''\<rparr>]
      30 (5 / 2) (3 / 2 :: real) =
      [\<lparr>l_start = Some 0, l_end = Some 3, l_duration = 2, l_line = ''a b''\<rparr>]"
    by (simp add: run_combine_words_def loop_body_def Let_def empty_line_def strip_def
        isspace_ascii_def)
  from a b c d show ?thesis by simp
qed

text \<open>
  The writes of a run whose pipeline call returns without raising: the four stages
  succeeded and so did the removal of the extracted audio that \<^verbatim>\<open>generate_subtitles\<close>
  ends with. The calls to the store are then exactly five, in this order: status NotStarted
  with progress 10, status Processing with 25, 50 and 65, and the completion write with
  status Completed, progress 100, the completion time and the download URL, which is not
  empty; their progress values increase strictly; and when the job has a row and the store
  performs the fifth call, the row ends with status Completed, progress 100, that URL and
  that completion time.
\<close>

lemma background_returning_run_writes:
  assumes "fst (process_video_with_subtitles env jid inp outp opts w) = Inr b"
  shows "db_calls (snd (background_video_processing env jid inp outp opts w)) =
           db_calls w @
             [UpdateStatus jid (Status_value NotStarted) 10,
              UpdateStatus jid (Status_value Processing) 25,
              UpdateStatus jid (Status_value Processing) 50,
              UpdateStatus jid (Status_value Processing) 65,
              UpdateCompleted jid (now env) (''/jobs/'' @ jid @ ''/download'')] \<and>
         ''/jobs/'' @ jid @ ''/download'' \<noteq> [] \<and>
         map call_status
           (drop (length (db_calls w))
              (db_calls (snd (background_video_processing env jid inp outp opts w)))) =
           [Status_value NotStarted, Status_value Processing, Status_value Processing,
            Status_value Processing, Status_value Completed] \<and>
         map call_progress
           (drop (length (db_calls w))
              (db_calls (snd (background_video_processing env jid inp outp opts w)))) =
           [10, 25, 50, 65, 100] \<and>
         sorted_wrt (<) (map call_progress
           (drop (length (db_calls w))
              (db_calls (snd (background_video_processing env jid inp outp opts w))))) \<and>
         (Jobs w jid \<noteq> None \<and> \<not> db_error env (length (db_calls w) + 4) \<longrightarrow>
          (\<exists>r. Jobs (snd (background_video_processing env jid inp outp opts w)) jid = Some r \<and>
               Status_ID r = Status_value Completed \<and> Progress r = 100 \<and>
               Download_URL r = ''/jobs/'' @ jid @ ''/download'' \<and>
               Completed_At r = now env))"
proof -
  note calls = background_success [OF assms]
  have cps: "length (checkpoints_written env jid inp w) = 3"
    using process_video_returns [OF assms] by (simp add: checkpoints_written_def)
  have row: "\<exists>r. Jobs (snd (background_video_processing env jid inp outp opts w)) jid = Some r \<and>
      Status_ID r = Status_value Completed \<and> Progress r = 100 \<and>
      Download_URL r = ''/jobs/'' @ jid @ ''/download'' \<and> Completed_At r = now env"
    if "Jobs w jid \<noteq> None" "\<not> db_error env (length (db_calls w) + 4)"
  proof -
    from that cps
    have "\<not> db_error env (Suc (length (db_calls w) + length (checkpoints_written env jid inp w)))"
      by (simp add: add.commute)
    from after_try_row [OF that(1) this, of outp opts] assms
    show ?thesis by (auto simp add: background_Jobs)
  qed
  show ?thesis
    using row by (simp add: calls)
qed

lemma background_returning_run_writes_example:
  "fst (process_video_with_subtitles example_env ''j1'' ''/t/j1_input.mp4'' ''/t/j1_output.mp4''
          example_options example_world) = Inr True \<and>
   db_calls (snd (background_video_processing example_env ''j1'' ''/t/j1_input.mp4''
          ''/t/j1_output.mp4'' example_options example_world)) =
     [CreateJob ''j1'' 1 0, UpdateStatus ''j1'' 1 10, UpdateStatus ''j1'' 2 25,
      UpdateStatus ''j1'' 2 50, UpdateStatus ''j1'' 2 65,
      UpdateCompleted ''j1'' (DateTime 2025 1 1 12 0 0 0) ''/jobs/j1/download''] \<and>
   (\<exists>r. Jobs (snd (background_video_processing example_env ''j1'' ''/t/j1_input.mp4''
          ''/t/j1_output.mp4'' example_options example_world)) ''j1'' = Some r \<and>
        Status_ID r = 3 \<and> Progress r = 100 \<and> Download_URL r = ''/jobs/j1/download'' \<and>
        Completed_At r = DateTime 2025 1 1 12 0 0 0)"
proof -
  have k: "Jobs example_world ''j1'' \<noteq> None \<and>
      \<not> db_error example_env (length (db_calls example_world) + 4)"
    by (simp add: example_world_def example_env_def)
  have c: "db_calls example_world = [CreateJob ''j1'' 1 0]"
    by (simp add: example_world_def)
  have n: "now example_env = DateTime 2025 1 1 12 0 0 0"
    by (simp add: example_env_def)
  from background_returning_run_writes [OF example_run_returns] k c n
  show ?thesis
    by (simp add: example_run_returns)
qed

section \<open>Claims about the pipeline and the job record\<close>

text \<open>
  C3 does not hold of the source. In this run every stage succeeds: the extraction returns
  the audio file, the transcriber returns words, the video opens, the caption layers are
  built, and the writer writes the output video, which exists at the end. The removal of
  the extracted audio, which is no stage, then raises; the exception reaches the handler
  of \<^verbatim>\<open>background_video_processing\<close>, and the writes of the run are 10, 25, 50, 65
  and then the failure write: the row ends with status Failed, progress 0, the message
  \<open>Error: busy\<close> and no download URL, where the claim has the completion write.
\<close>

theorem all_stages_succeed_job_failed:
  "fst (convert_video_to_mp3
          (example_env\<lparr>os_remove_error :=
             (\<lambda>path. if path = ''/t/j1_input.mp3'' then Some (OSError ''busy'') else None)\<rparr>)
          ''/t/j1_input.mp4'' example_world) = Inr (Some ''/t/j1_input.mp3'') \<and>
   (\<exists>raw sz layers.
      whisper_transcribe
          (example_env\<lparr>os_remove_error :=
             (\<lambda>path. if path = ''/t/j1_input.mp3'' then Some (OSError ''busy'') else None)\<rparr>) =
        Inr raw \<and>
      VideoFileClip_size
          (example_env\<lparr>os_remove_error :=
             (\<lambda>path. if path = ''/t/j1_input.mp3'' then Some (OSError ''busy'') else None)\<rparr>) =
        Inr sz \<and>
      create_caption
          (example_env\<lparr>os_remove_error :=
             (\<lambda>path. if path = ''/t/j1_input.mp3'' then Some (OSError ''busy'') else None)\<rparr>)
          (combine_words
             (example_env\<lparr>os_remove_error :=
                (\<lambda>path. if path = ''/t/j1_input.mp3'' then Some (OSError ''busy'') else None)\<rparr>)
             raw (max_chars example_options) (max_duration example_options)
             (max_gap example_options))
          sz example_options = Inr layers) \<and>
   write_videofile
          (example_env\<lparr>os_remove_error :=
             (\<lambda>path. if path = ''/t/j1_input.mp3'' then Some (OSError ''busy'') else None)\<rparr>) =
     None \<and>
   ''/t/j1_output.mp4'' \<in> files (snd (background_video_processing
          (example_env\<lparr>os_remove_error :=
             (\<lambda>path. if path = ''/t/j1_input.mp3'' then Some (OSError ''busy'') else None)\<rparr>)
          ''j1'' ''/t/j1_input.mp4'' ''/t/j1_output.mp4'' example_options example_world)) \<and>
   db_calls (snd (background_video_processing
          (example_env\<lparr>os_remove_error :=
             (\<lambda>path. if path = ''/t/j1_input.mp3'' then Some (OSError ''busy'') else None)\<rparr>)
          ''j1'' ''/t/j1_input.mp4'' ''/t/j1_output.mp4'' example_options example_world)) =
     [CreateJob ''j1'' 1 0, UpdateStatus ''j1'' 1 10, UpdateStatus ''j1'' 2 25,
      UpdateStatus ''j1'' 2 50, UpdateStatus ''j1'' 2 65, UpdateFailed ''j1'' ''Error: busy''] \<and>
   (\<exists>r. Jobs (snd (background_video_processing
          (example_env\<lparr>os_remove_error :=
             (\<lambda>path. if path = ''/t/j1_input.mp3'' then Some (OSError ''busy'') else None)\<rparr>)
          ''j1'' ''/t/j1_input.mp4'' ''/t/j1_output.mp4'' example_options example_world)) ''j1'' =
        Some r \<and> Status_ID r = 4 \<and> Progress r = 0 \<and> Failed_Message r = ''Error: busy'' \<and>
        Download_URL r = [])"
proof -
  let ?env = "example_env\<lparr>os_remove_error :=
      (\<lambda>path. if path = ''/t/j1_input.mp3'' then Some (OSError ''busy'') else None)\<rparr>"
  have a: "fst (convert_video_to_mp3 ?env ''/t/j1_input.mp4'' example_world) =
      Inr (Some ''/t/j1_input.mp3'')"
    by (simp add: convert_video_to_mp3_def os_path_exists_def example_env_def example_world_def
        Let_def)
  have b: "\<exists>raw sz layers. whisper_transcribe ?env = Inr raw \<and> VideoFileClip_size ?env = Inr sz \<and>
      create_caption ?env
        (combine_words ?env raw (max_chars example_options) (max_duration example_options)
           (max_gap example_options)) sz example_options = Inr layers"
    by (simp add: pipeline_defs example_env_def example_options_def Let_def)
  have c: "write_videofile ?env = None" by (simp add: example_env_def)
  show ?thesis
    using a b c example_audio_busy_row
    by (simp add: example_audio_busy_files example_audio_busy_calls)
qed

text \<open>
  C4. When the pipeline call raises \<open>e\<close>, the calls of the background run are the start
  write, the checkpoints that precede the failing stage (\<open>checkpoints_written\<close>: none
  after a failed extraction, 25 after a failed transcription, 25, 50 and 65 after a later
  failure) and then at once the failure write with the message \<open>Error: \<close> followed by
  \<^verbatim>\<open>str(e)\<close>, which is not empty; no call of the run writes the status Completed. When
  the job has a row and the store performs the failure write, the row ends with status
  Failed, progress 0 and that message. When removing the input file does not itself raise,
  no file is left at the input path.
\<close>

theorem background_failure_writes:
  assumes "fst (process_video_with_subtitles env jid inp outp opts w) = Inl e"
  shows "db_calls (snd (background_video_processing env jid inp outp opts w)) =
           db_calls w @ UpdateStatus jid (Status_value NotStarted) 10 #
             checkpoints_written env jid inp w @ [UpdateFailed jid (''Error: '' @ str_exn e)] \<and>
         ''Error: '' @ str_exn e \<noteq> [] \<and>
         (\<forall>c \<in> set (drop (length (db_calls w))
                     (db_calls (snd (background_video_processing env jid inp outp opts w)))).
            call_status c \<noteq> Status_value Completed) \<and>
         (Jobs w jid \<noteq> None \<and>
          \<not> db_error env (Suc (length (db_calls w) + length (checkpoints_written env jid inp w))) \<longrightarrow>
          (\<exists>r. Jobs (snd (background_video_processing env jid inp outp opts w)) jid = Some r \<and>
               Status_ID r = Status_value Failed \<and> Progress r = 0 \<and>
               Failed_Message r = ''Error: '' @ str_exn e)) \<and>
         (os_remove_error env inp = None \<longrightarrow>
          inp \<notin> files (snd (background_video_processing env jid inp outp opts w)))"
proof -
  note calls = background_failure [OF assms]
  have never: "\<forall>c \<in> set (drop (length (db_calls w))
      (db_calls (snd (background_video_processing env jid inp outp opts w)))).
      call_status c \<noteq> Status_value Completed"
    using checkpoints_written_status [of _ env jid inp w] by (auto simp add: calls)
  have row: "\<exists>r. Jobs (snd (background_video_processing env jid inp outp opts w)) jid = Some r \<and>
      Status_ID r = Status_value Failed \<and> Progress r = 0 \<and>
      Failed_Message r = ''Error: '' @ str_exn e"
    if "Jobs w jid \<noteq> None"
      "\<not> db_error env (Suc (length (db_calls w) + length (checkpoints_written env jid inp w)))"
    using after_try_row [OF that, of outp opts] assms
    by (auto simp add: background_Jobs)
  show ?thesis
    using never row background_removes_input [of env inp jid outp opts w]
    by (simp add: calls)
qed

theorem background_failure_writes_witness:
  "fst (process_video_with_subtitles
          (example_env\<lparr>whisper_transcribe := Inl (RuntimeError ''no model'')\<rparr>)
          ''j1'' ''/t/j1_input.mp4'' ''/t/j1_output.mp4'' example_options example_world) =
     Inl (RuntimeError ''no model'') \<and>
   db_calls (snd (background_video_processing
          (example_env\<lparr>whisper_transcribe := Inl (RuntimeError ''no model'')\<rparr>)
          ''j1'' ''/t/j1_input.mp4'' ''/t/j1_output.mp4'' example_options example_world)) =
     [CreateJob ''j1'' 1 0, UpdateStatus ''j1'' 1 10, UpdateStatus ''j1'' 2 25,
      UpdateFailed ''j1'' ''Error: no model''] \<and>
   (\<exists>r. Jobs (snd (background_video_processing
          (example_env\<lparr>whisper_transcribe := Inl (RuntimeError ''no model'')\<rparr>)
          ''j1'' ''/t/j1_input.mp4'' ''/t/j1_output.mp4'' example_options example_world)) ''j1'' =
        Some r \<and> Status_ID r = 4 \<and> Progress r = 0 \<and> Failed_Message r = ''Error: no model'') \<and>
   ''/t/j1_input.mp4'' \<notin> files (snd (background_video_processing
          (example_env\<lparr>whisper_transcribe := Inl (RuntimeError ''no model'')\<rparr>)
          ''j1'' ''/t/j1_input.mp4'' ''/t/j1_output.mp4'' example_options example_world))"
proof -
  let ?env = "example_env\<lparr>whisper_transcribe := Inl (RuntimeError ''no model'')\<rparr>"
  have k: "Jobs example_world ''j1'' \<noteq> None \<and>
      \<not> db_error ?env (Suc (length (db_calls example_world) +
          length (checkpoints_written ?env ''j1'' ''/t/j1_input.mp4'' example_world)))"
    by (simp add: example_world_def example_env_def)
  have c: "db_calls example_world = [CreateJob ''j1'' 1 0]"
    by (simp add: example_world_def)
  have o: "os_remove_error ?env ''/t/j1_input.mp4'' = None"
    by (simp add: example_env_def)
  from background_failure_writes [OF example_run_transcription_fails] k c o
  show ?thesis
    by (simp add: example_run_transcription_fails example_failing_run_checkpoints)
qed

text \<open>
  C7 does not hold of the source. In the example run the extraction produces
  \<open>/t/j1_input.mp3\<close>, which did not exist before; when the transcriber then raises, the
  job is marked Failed and the audio file is still there at the end of the background run.
  The run in which nothing raises does remove it.
\<close>

theorem audio_file_left_after_failed_run:
  "''/t/j1_input.mp3'' \<notin> files example_world \<and>
   fst (convert_video_to_mp3 example_env ''/t/j1_input.mp4'' example_world) =
     Inr (Some ''/t/j1_input.mp3'') \<and>
   fst (process_video_with_subtitles
          (example_env\<lparr>whisper_transcribe := Inl (RuntimeError ''no model'')\<rparr>)
          ''j1'' ''/t/j1_input.mp4'' ''/t/j1_output.mp4'' example_options example_world) =
     Inl (RuntimeError ''no model'') \<and>
   last (db_calls (snd (background_video_processing
          (example_env\<lparr>whisper_transcribe := Inl (RuntimeError ''no model'')\<rparr>)
          ''j1'' ''/t/j1_input.mp4'' ''/t/j1_output.mp4'' example_options example_world))) =
     UpdateFailed ''j1'' ''Error: no model'' \<and>
   ''/t/j1_input.mp3'' \<in> files (snd (background_video_processing
          (example_env\<lparr>whisper_transcribe := Inl (RuntimeError ''no model'')\<rparr>)
          ''j1'' ''/t/j1_input.mp4'' ''/t/j1_output.mp4'' example_options example_world)) \<and>
   ''/t/j1_input.mp3'' \<notin> files (snd (background_video_processing example_env
          ''j1'' ''/t/j1_input.mp4'' ''/t/j1_output.mp4'' example_options example_world))"
proof -
  have a: "''/t/j1_input.mp3'' \<notin> files example_world"
    by (simp add: example_world_def)
  have b: "fst (convert_video_to_mp3 example_env ''/t/j1_input.mp4'' example_world) =
      Inr (Some ''/t/j1_input.mp3'')"
    by (simp add: convert_video_to_mp3_def os_path_exists_def example_env_def example_world_def
        Let_def)
  have c: "last (db_calls (snd (background_video_processing
          (example_env\<lparr>whisper_transcribe := Inl (RuntimeError ''no model'')\<rparr>)
          ''j1'' ''/t/j1_input.mp4'' ''/t/j1_output.mp4'' example_options example_world))) =
      UpdateFailed ''j1'' ''Error: no model''"
    using background_failure [OF example_run_transcription_fails] by simp
  show ?thesis
    using a b c
    by (simp add: example_run_transcription_fails example_bg_failing_files example_bg_ok_files)
qed

text \<open>
  C8 does not hold of the source for the two removals of the pipeline. When every stage
  succeeds and the output video is written, but removing the extracted audio raises, the
  exception reaches the handler and the job is marked Failed with its message. When
  removing the input file in the \<^verbatim>\<open>finally\<close> block raises, the exception leaves
  \<^verbatim>\<open>background_video_processing\<close>.
\<close>

theorem cleanup_failure_not_swallowed:
  "fst (process_video_with_subtitles
          (example_env\<lparr>os_remove_error :=
             (\<lambda>path. if path = ''/t/j1_input.mp3'' then Some (OSError ''busy'') else None)\<rparr>)
          ''j1'' ''/t/j1_input.mp4'' ''/t/j1_output.mp4'' example_options example_world) =
     Inl (OSError ''busy'') \<and>
   ''/t/j1_output.mp4'' \<in> files (snd (background_video_processing
          (example_env\<lparr>os_remove_error :=
             (\<lambda>path. if path = ''/t/j1_input.mp3'' then Some (OSError ''busy'') else None)\<rparr>)
          ''j1'' ''/t/j1_input.mp4'' ''/t/j1_output.mp4'' example_options example_world)) \<and>
   db_calls (snd (background_video_processing
          (example_env\<lparr>os_remove_error :=
             (\<lambda>path. if path = ''/t/j1_input.mp3'' then Some (OSError ''busy'') else None)\<rparr>)
          ''j1'' ''/t/j1_input.mp4'' ''/t/j1_output.mp4'' example_options example_world)) =
     [CreateJob ''j1'' 1 0, UpdateStatus ''j1'' 1 10, UpdateStatus ''j1'' 2 25,
      UpdateStatus ''j1'' 2 50, UpdateStatus ''j1'' 2 65, UpdateFailed ''j1'' ''Error: busy''] \<and>
   fst (background_video_processing
          (example_env\<lparr>os_remove_error :=
             (\<lambda>path. if path = ''/t/j1_input.mp4'' then Some (OSError ''busy'') else None)\<rparr>)
          ''j1'' ''/t/j1_input.mp4'' ''/t/j1_output.mp4'' example_options example_world) =
     Inl (OSError ''busy'')"
proof -
  let ?env = "example_env\<lparr>os_remove_error :=
      (\<lambda>path. if path = ''/t/j1_input.mp3'' then Some (OSError ''busy'') else None)\<rparr>"
  have cps: "checkpoints_written ?env ''j1'' ''/t/j1_input.mp4'' example_world =
      [UpdateStatus ''j1'' 2 25, UpdateStatus ''j1'' 2 50, UpdateStatus ''j1'' 2 65]"
    by (simp add: checkpoints_written_def extraction_fails_def transcription_fails_def
        convert_video_to_mp3_def os_path_exists_def example_env_def example_world_def Let_def)
  have c: "db_calls example_world = [CreateJob ''j1'' 1 0]" by (simp add: example_world_def)
  have d: "db_calls (snd (background_video_processing ?env
          ''j1'' ''/t/j1_input.mp4'' ''/t/j1_output.mp4'' example_options example_world)) =
     [CreateJob ''j1'' 1 0, UpdateStatus ''j1'' 1 10, UpdateStatus ''j1'' 2 25,
      UpdateStatus ''j1'' 2 50, UpdateStatus ''j1'' 2 65, UpdateFailed ''j1'' ''Error: busy'']"
    using background_failure [OF example_audio_busy_run] by (simp add: cps c)
  show ?thesis
    using d by (simp add: example_audio_busy_run example_audio_busy_files example_input_busy_return)
qed

text \<open>
  C9. \<^verbatim>\<open>process_video_with_subtitles\<close> never returns \<^verbatim>\<open>False\<close>. The failure
  messages a background run writes are: the message \<open>Error: \<close> followed by
  \<^verbatim>\<open>str(e)\<close> when the pipeline call raises \<open>e\<close>, and none when it returns; so the
  \<^verbatim>\<open>else\<close> branch writes nothing in any run, and every message written starts with
  \<open>Error: \<close>.
\<close>

theorem failure_message_from_handler:
  "fst (process_video_with_subtitles env jid inp outp opts w) \<noteq> Inr False \<and>
   failed_messages (drop (length (db_calls w))
       (db_calls (snd (background_video_processing env jid inp outp opts w)))) =
     (case fst (process_video_with_subtitles env jid inp outp opts w) of
        Inl e \<Rightarrow> [''Error: '' @ str_exn e]
      | Inr b \<Rightarrow> []) \<and>
   (\<forall>m \<in> set (failed_messages (drop (length (db_calls w))
       (db_calls (snd (background_video_processing env jid inp outp opts w))))).
      take 7 m = ''Error: '')"
proof -
  have m: "failed_messages (drop (length (db_calls w))
       (db_calls (snd (background_video_processing env jid inp outp opts w)))) =
     (case fst (process_video_with_subtitles env jid inp outp opts w) of
        Inl e \<Rightarrow> [''Error: '' @ str_exn e]
      | Inr b \<Rightarrow> [])"
    by (simp add: background_calls terminal_write_eq failed_messages_append
        failed_messages_checkpoints split: sum.splits)
  show ?thesis
    unfolding m using process_video_never_False [of env jid inp outp opts w]
    by (auto split: sum.splits)
qed

theorem failure_message_from_handler_witness:
  "failed_messages (drop (length (db_calls example_world))
       (db_calls (snd (background_video_processing
          (example_env\<lparr>whisper_transcribe := Inl (RuntimeError ''no model'')\<rparr>)
          ''j1'' ''/t/j1_input.mp4'' ''/t/j1_output.mp4'' example_options example_world)))) =
     [''Error: no model''] \<and>
   take 7 ''Error: no model'' = ''Error: ''"
proof -
  let ?env = "example_env\<lparr>whisper_transcribe := Inl (RuntimeError ''no model'')\<rparr>"
  note t = failure_message_from_handler [of ?env "''j1''" "''/t/j1_input.mp4''"
      "''/t/j1_output.mp4''" example_options example_world]
  from t have "failed_messages (drop (length (db_calls example_world))
       (db_calls (snd (background_video_processing ?env
          ''j1'' ''/t/j1_input.mp4'' ''/t/j1_output.mp4'' example_options example_world)))) =
     [''Error: no model'']"
    by (simp add: example_run_transcription_fails)
  with t show ?thesis by simp
qed

text \<open>
  C10. For options whose \<open>position_id\<close> is none of 1, 2, 3: \<^verbatim>\<open>create_job\<close> returns the
  job identifier and paths as for any options, and when the store accepts the insert the
  options are stored unchanged with a job row in status NotStarted at progress 0;
  \<^verbatim>\<open>_create_caption\<close> raises the \<^verbatim>\<open>ValueError\<close> of \<^verbatim>\<open>Position\<close> on every
  list of lines; the pipeline call raises in every environment, the background run ends
  with the failure write, and the row, when it exists and the store performs that write,
  ends with status Failed; and when extraction, transcription and the opening of the video
  succeed, the exception raised is that \<^verbatim>\<open>ValueError\<close>.
\<close>

theorem invalid_position_fails_job:
  assumes "position_id opts \<notin> {1, 2, 3}"
  shows "fst (create_job env name opts w0) =
           (uuid4 env, temp_dir_join env (uuid4 env @ ''_input'' @ suffix env name),
            temp_dir_join env (uuid4 env @ ''_output.mp4'')) \<and>
         (\<not> db_error env (length (db_calls w0)) \<and> Jobs w0 (uuid4 env) = None \<and>
          Subtitle_Options w0 (uuid4 env) = None \<longrightarrow>
          Subtitle_Options (snd (create_job env name opts w0)) (uuid4 env) = Some opts \<and>
          (\<exists>r. Jobs (snd (create_job env name opts w0)) (uuid4 env) = Some r \<and>
               Status_ID r = Status_value NotStarted \<and> Progress r = 0)) \<and>
         create_caption env lines sz opts =
           Inl (ValueError (str_int (position_id opts) @ '' is not a valid Position'')) \<and>
         (\<exists>e. fst (process_video_with_subtitles env jid inp outp opts w) = Inl e \<and>
              db_calls (snd (background_video_processing env jid inp outp opts w)) =
                db_calls w @ UpdateStatus jid (Status_value NotStarted) 10 #
                  checkpoints_written env jid inp w @ [UpdateFailed jid (''Error: '' @ str_exn e)] \<and>
              (Jobs w jid \<noteq> None \<and>
               \<not> db_error env (Suc (length (db_calls w) +
                   length (checkpoints_written env jid inp w))) \<longrightarrow>
               (\<exists>r. Jobs (snd (background_video_processing env jid inp outp opts w)) jid = Some r \<and>
                    Status_ID r = Status_value Failed \<and> Progress r = 0 \<and>
                    Failed_Message r = ''Error: '' @ str_exn e))) \<and>
         (\<not> extraction_fails env inp w \<and> \<not> transcription_fails env \<and>
          VideoFileClip_size env = Inr sz \<longrightarrow>
          fst (process_video_with_subtitles env jid inp outp opts w) =
            Inl (ValueError (str_int (position_id opts) @ '' is not a valid Position'')))"
proof -
  have a: "fst (create_job env name opts w0) =
      (uuid4 env, temp_dir_join env (uuid4 env @ ''_input'' @ suffix env name),
       temp_dir_join env (uuid4 env @ ''_output.mp4''))"
    by (simp add: create_job_def Let_def)
  have b: "Subtitle_Options (snd (create_job env name opts w0)) (uuid4 env) = Some opts \<and>
      (\<exists>r. Jobs (snd (create_job env name opts w0)) (uuid4 env) = Some r \<and>
           Status_ID r = Status_value NotStarted \<and> Progress r = 0)"
    if "\<not> db_error env (length (db_calls w0))" "Jobs w0 (uuid4 env) = None"
      "Subtitle_Options w0 (uuid4 env) = None"
    using that by (simp add: create_job_def create_job_db_def db_attempt_def Let_def)
  note c = create_caption_invalid_position [OF assms, of env lines sz]
  from generate_subtitles_invalid_position [OF assms, of env jid inp outp w]
  obtain e where e: "fst (process_video_with_subtitles env jid inp outp opts w) = Inl e"
    by (auto simp add: process_video_fst)
  have row: "\<exists>r. Jobs (snd (background_video_processing env jid inp outp opts w)) jid = Some r \<and>
      Status_ID r = Status_value Failed \<and> Progress r = 0 \<and>
      Failed_Message r = ''Error: '' @ str_exn e"
    if "Jobs w jid \<noteq> None"
      "\<not> db_error env (Suc (length (db_calls w) + length (checkpoints_written env jid inp w)))"
    using after_try_row [OF that, of outp opts] e
    by (auto simp add: background_Jobs)
  have d: "\<exists>e. fst (process_video_with_subtitles env jid inp outp opts w) = Inl e \<and>
      db_calls (snd (background_video_processing env jid inp outp opts w)) =
        db_calls w @ UpdateStatus jid (Status_value NotStarted) 10 #
          checkpoints_written env jid inp w @ [UpdateFailed jid (''Error: '' @ str_exn e)] \<and>
      (Jobs w jid \<noteq> None \<and>
       \<not> db_error env (Suc (length (db_calls w) +
           length (checkpoints_written env jid inp w))) \<longrightarrow>
       (\<exists>r. Jobs (snd (background_video_processing env jid inp outp opts w)) jid = Some r \<and>
            Status_ID r = Status_value Failed \<and> Progress r = 0 \<and>
            Failed_Message r = ''Error: '' @ str_exn e))"
    using e background_failure [OF e] row by blast
  have f: "fst (process_video_with_subtitles env jid inp outp opts w) =
      Inl (ValueError (str_int (position_id opts) @ '' is not a valid Position''))"
    if "\<not> extraction_fails env inp w" "\<not> transcription_fails env" "VideoFileClip_size env = Inr sz"
    using generate_subtitles_invalid_position_reached [OF assms that, of jid outp]
    by (simp add: process_video_fst)
  from a b c d f show ?thesis by blast
qed

theorem invalid_position_fails_job_witness:
  "position_id (example_options\<lparr>position_id := 7\<rparr>) \<notin> {1, 2, 3} \<and>
   Subtitle_Options (snd (create_job example_env ''talk.mp4''
       (example_options\<lparr>position_id := 7\<rparr>) example_world0)) ''j1'' =
     Some (example_options\<lparr>position_id := 7\<rparr>) \<and>
   fst (process_video_with_subtitles example_env ''j1'' ''/t/j1_input.mp4'' ''/t/j1_output.mp4''
          (example_options\<lparr>position_id := 7\<rparr>) example_world) =
     Inl (ValueError ''7 is not a valid Position'') \<and>
   db_calls (snd (background_video_processing example_env ''j1'' ''/t/j1_input.mp4''
          ''/t/j1_output.mp4'' (example_options\<lparr>position_id := 7\<rparr>) example_world)) =
     [CreateJob ''j1'' 1 0, UpdateStatus ''j1'' 1 10, UpdateStatus ''j1'' 2 25,
      UpdateStatus ''j1'' 2 50, UpdateStatus ''j1'' 2 65,
      UpdateFailed ''j1'' ''Error: 7 is not a valid Position'']"
proof -
  let ?opts = "example_options\<lparr>position_id := 7\<rparr>"
  have p: "position_id ?opts \<notin> {1, 2, 3}" by simp
  note t = invalid_position_fails_job [OF p, of example_env "''talk.mp4''" example_world0
      _ _ "''j1''" "''/t/j1_input.mp4''" "''/t/j1_output.mp4''" example_world]
  have fresh: "\<not> db_error example_env (length (db_calls example_world0)) \<and>
      Jobs example_world0 (uuid4 example_env) = None \<and>
      Subtitle_Options example_world0 (uuid4 example_env) = None"
    by (simp add: example_env_def example_world0_def)
  have u: "uuid4 example_env = ''j1''" by (simp add: example_env_def)
  have c: "db_calls example_world = [CreateJob ''j1'' 1 0]" by (simp add: example_world_def)
  from t fresh u have s: "Subtitle_Options (snd (create_job example_env ''talk.mp4'' ?opts
      example_world0)) ''j1'' = Some ?opts"
    by simp
  from t obtain e where e: "fst (process_video_with_subtitles example_env ''j1''
        ''/t/j1_input.mp4'' ''/t/j1_output.mp4'' ?opts example_world) = Inl e"
    and d: "db_calls (snd (background_video_processing example_env ''j1'' ''/t/j1_input.mp4''
        ''/t/j1_output.mp4'' ?opts example_world)) =
      db_calls example_world @ UpdateStatus ''j1'' (Status_value NotStarted) 10 #
        checkpoints_written example_env ''j1'' ''/t/j1_input.mp4'' example_world @
        [UpdateFailed ''j1'' (''Error: '' @ str_exn e)]"
    by blast
  from e have e': "e = ValueError ''7 is not a valid Position''"
    by (simp add: example_invalid_position_run)
  from p s e d show ?thesis
    by (simp add: e' c example_checkpoints_all)
qed

end
